theory Spec2Isabelle
  imports
    Complex_Main
    "HOL-Library.Char_ord"
    "HOL-Library.List_Lexorder"
    "HOL-Library.Multiset"
begin

section \<open>Data model of \<^verbatim>\<open>train_processor.py\<close>\<close>

text \<open>
  Python's unbounded integers are \<open>int\<close>, its strings are \<open>string\<close> (the ASCII
  fragment; a character is one byte). The exceptions the pipeline can meet are
  \<open>ValueError\<close> (\<^verbatim>\<open>int()\<close> on a non-numeral, unpacking the wrong number of fields,
  \<^verbatim>\<open>datetime.replace\<close> or \<^verbatim>\<open>strptime\<close> out of range) and \<open>OverflowError\<close>
  (\<^verbatim>\<open>timedelta\<close> and \<^verbatim>\<open>datetime\<close> arithmetic leaving the calendar).
\<close>

datatype error = ValueError | OverflowError

record TrainSchedule =
  train_number :: string
  arrival_time :: string
  departure_time :: string
  platform :: string
  route :: string
  status :: string
  delay_minutes :: int
  gate_closure_duration :: int
  priority :: string

text \<open>
  The dataclass \<^verbatim>\<open>Route\<close>. The two float fields are never read by the computation;
  their type is the parameter \<open>'f\<close>, the type of Python floats.
\<close>

record 'f Route =
  route_id :: string
  name :: string
  distance_km :: 'f
  additional_time_minutes :: int
  traffic_level :: string
  road_conditions :: string
  recommended :: bool
  toll_cost :: 'f

section \<open>Wait recommendation and traffic intensity\<close>

text \<open>
  The methods \<^verbatim>\<open>_get_wait_recommendation\<close>, \<^verbatim>\<open>_get_traffic_intensity\<close> and
  \<^verbatim>\<open>_get_recommended_window\<close>, named without the leading underscore.
\<close>

definition get_wait_recommendation :: "int \<Rightarrow> int \<Rightarrow> string" where
  "get_wait_recommendation minutes_until duration =
     (if minutes_until \<le> 2 then ''STOP - Gate closing very soon''
      else if minutes_until \<le> 5 then ''CAUTION - Consider alternative route''
      else if duration > 10 then ''PLAN - Long closure expected, use alternative route''
      else ''PROCEED - Sufficient time to cross'')"

definition get_traffic_intensity :: "int \<Rightarrow> string" where
  "get_traffic_intensity h =
     (if (7 \<le> h \<and> h \<le> 9) \<or> (17 \<le> h \<and> h \<le> 19) then ''high''
      else if (10 \<le> h \<and> h \<le> 16) \<or> (19 \<le> h \<and> h \<le> 21) then ''medium''
      else ''low'')"

definition get_recommended_window :: "int \<Rightarrow> string" where
  "get_recommended_window current_hour =
     (if current_hour < 7 then ''07:00-07:30 (Before morning rush)''
      else if 7 \<le> current_hour \<and> current_hour \<le> 9 then ''10:00-11:00 (After morning rush)''
      else if 9 < current_hour \<and> current_hour < 17 then ''Now - Good time to travel''
      else if 17 \<le> current_hour \<and> current_hour \<le> 19 then ''20:00-21:00 (After evening rush)''
      else ''Now - Light traffic period'')"

text \<open>
  \<^verbatim>\<open>analyze_traffic_patterns\<close>: the fields that are computed from the clock. The
  randomly sampled fields (weather, events, statistics) and the formatted time and day
  name do not enter any other computation and are left out.
\<close>

record traffic_analysis =
  traffic_intensity :: string
  next_hour_traffic :: string
  recommended_travel_window :: string

definition analyze_traffic_patterns :: "int \<Rightarrow> traffic_analysis" where
  "analyze_traffic_patterns current_hour =
     \<lparr>traffic_intensity = get_traffic_intensity current_hour,
      next_hour_traffic = get_traffic_intensity (current_hour + 1),
      recommended_travel_window = get_recommended_window current_hour\<rparr>"

section \<open>Dates and times\<close>

text \<open>
  A \<^verbatim>\<open>datetime\<close> (naive, as the source uses it): the proleptic Gregorian ordinal of
  its date (\<^verbatim>\<open>toordinal()\<close>, 1 for 0001-01-01, \<open>MAXORDINAL\<close> for 9999-12-31) and its
  time of day. A \<^verbatim>\<open>timedelta\<close> is its total number of microseconds, which the
  normalised triple (days, seconds, microseconds) of the library determines and is
  determined by.
\<close>

record datetime =
  day :: int
  hour :: int
  minute :: int
  second :: int
  microsecond :: int

type_synonym timedelta = int

definition MAXORDINAL :: int where
  "MAXORDINAL = 3652059"

definition valid_datetime :: "datetime \<Rightarrow> bool" where
  "valid_datetime dt =
     (1 \<le> day dt \<and> day dt \<le> MAXORDINAL \<and> 0 \<le> hour dt \<and> hour dt \<le> 23
      \<and> 0 \<le> minute dt \<and> minute dt \<le> 59 \<and> 0 \<le> second dt \<and> second dt \<le> 59
      \<and> 0 \<le> microsecond dt \<and> microsecond dt \<le> 999999)"

text \<open>
  \<^verbatim>\<open>dt.replace(hour=h, minute=m, second=0, microsecond=0)\<close>. The library first
  converts every argument to a C \<^verbatim>\<open>int\<close> (32 bits) and raises \<open>OverflowError\<close> for
  one that does not fit; only then it checks the ranges, the hour before the minute, and
  raises \<open>ValueError\<close> for a field out of range.
\<close>

definition fits_c_int :: "int \<Rightarrow> bool" where
  "fits_c_int n = (- 2147483648 \<le> n \<and> n \<le> 2147483647)"

definition replace_hm :: "datetime \<Rightarrow> int \<Rightarrow> int \<Rightarrow> error + datetime" where
  "replace_hm dt h m =
     (if \<not> (fits_c_int h \<and> fits_c_int m) then Inl OverflowError
      else if 0 \<le> h \<and> h \<le> 23 \<and> 0 \<le> m \<and> m \<le> 59
      then Inr (dt\<lparr>hour := h, minute := m, second := 0, microsecond := 0\<rparr>)
      else Inl ValueError)"

text \<open>\<^verbatim>\<open>timedelta(minutes=k)\<close>; more than 999999999 days in either direction raise
  \<open>OverflowError\<close>.\<close>

definition timedelta_minutes :: "int \<Rightarrow> error + timedelta" where
  "timedelta_minutes k =
     (if \<bar>(k * 60) div 86400\<bar> > 999999999 then Inl OverflowError
      else Inr (k * 60000000))"

definition us_of_day :: "datetime \<Rightarrow> int" where
  "us_of_day dt = ((hour dt * 60 + minute dt) * 60 + second dt) * 1000000 + microsecond dt"

text \<open>The position of a datetime on the time line, in microseconds.\<close>

definition to_us :: "datetime \<Rightarrow> int" where
  "to_us dt = day dt * 86400000000 + us_of_day dt"

text \<open>
  \<^verbatim>\<open>datetime + timedelta\<close>, as \<^verbatim>\<open>datetime.__add__\<close> computes it: the sum is taken as
  one duration since ordinal 0, split into days, seconds and microseconds, and refused
  with \<open>OverflowError\<close> when the day leaves the calendar. Subtracting a timedelta adds
  its negation.
\<close>

definition dt_add :: "datetime \<Rightarrow> timedelta \<Rightarrow> error + datetime" where
  "dt_add dt td =
     (let t = to_us dt + td;
          days = t div 86400000000;
          secs = (t mod 86400000000) div 1000000;
          us = t mod 1000000
      in if 0 < days \<and> days \<le> MAXORDINAL
         then Inr \<lparr>day = days, hour = secs div 3600, minute = (secs mod 3600) div 60,
                   second = (secs mod 3600) mod 60, microsecond = us\<rparr>
         else Inl OverflowError)"

definition dt_sub :: "datetime \<Rightarrow> timedelta \<Rightarrow> error + datetime" where
  "dt_sub dt td = dt_add dt (- td)"

text \<open>Comparison of datetimes is field by field, the date first.\<close>

definition dt_less :: "datetime \<Rightarrow> datetime \<Rightarrow> bool" where
  "dt_less a b =
     (day a < day b \<or> (day a = day b \<and>
       (hour a < hour b \<or> (hour a = hour b \<and>
         (minute a < minute b \<or> (minute a = minute b \<and>
           (second a < second b \<or> (second a = second b \<and>
             microsecond a < microsecond b))))))))"

text \<open>\<^verbatim>\<open>a - b\<close> on two datetimes: the timedelta between them.\<close>

definition dt_diff :: "datetime \<Rightarrow> datetime \<Rightarrow> timedelta" where
  "dt_diff a b = to_us a - to_us b"

text \<open>
  \<^verbatim>\<open>int(td.total_seconds() / 60)\<close>: the quotient truncated toward zero. The source
  forms it in floating point; a timedelta of less than a day is a whole number of
  microseconds, so the float quotient is never closer to an integer than one sixtieth
  of a microsecond unless it is one, and truncating it gives the exact value.
\<close>

definition minutes_of_delta :: "timedelta \<Rightarrow> int" where
  "minutes_of_delta td =
     (if 0 \<le> td then td div 60000000 else - ((- td) div 60000000))"

section \<open>Strings: digits, \<^verbatim>\<open>int()\<close>, \<^verbatim>\<open>split\<close>, \<^verbatim>\<open>strftime\<close>, \<^verbatim>\<open>strptime\<close>\<close>

definition digit_char :: "int \<Rightarrow> char" where
  "digit_char n = ''0123456789'' ! nat n"

definition two_digits :: "int \<Rightarrow> string" where
  "two_digits n = [digit_char (n div 10), digit_char (n mod 10)]"

text \<open>\<^verbatim>\<open>dt.strftime('%H:%M')\<close>: hour and minute, two digits each.\<close>

definition strftime_HM :: "datetime \<Rightarrow> string" where
  "strftime_HM dt = two_digits (hour dt) @ '':'' @ two_digits (minute dt)"

text \<open>The whitespace that \<^verbatim>\<open>int()\<close> drops around an ASCII string: tab, line feed,
  vertical tab, form feed, carriage return and space.\<close>

definition is_space :: "char \<Rightarrow> bool" where
  "is_space c = (c \<in> set [CHR 0x09, CHR 0x0A, CHR 0x0B, CHR 0x0C, CHR 0x0D, CHR '' ''])"

definition is_digit :: "char \<Rightarrow> bool" where
  "is_digit c = (c \<in> set ''0123456789'')"

definition digit_val :: "char \<Rightarrow> int" where
  "digit_val c = of_char c - 48"

text \<open>\<^verbatim>\<open>s.split(d)\<close> for a one-character separator: every occurrence splits, and
  the empty string gives one empty field.\<close>

fun split_on :: "char \<Rightarrow> string \<Rightarrow> string list" where
  "split_on d [] = [[]]"
| "split_on d (c # cs) =
     (if c = d then [] # split_on d cs
      else (case split_on d cs of w # ws \<Rightarrow> (c # w) # ws | [] \<Rightarrow> [[c]]))"

definition strip :: "string \<Rightarrow> string" where
  "strip s = rev (dropWhile is_space (rev (dropWhile is_space s)))"

definition digits_value :: "string \<Rightarrow> int" where
  "digits_value ds = foldl (\<lambda>acc c. acc * 10 + digit_val c) 0 ds"

text \<open>
  \<^verbatim>\<open>int(s)\<close> on a string: surrounding whitespace is dropped, one sign is allowed,
  and the digits may be grouped by single underscores. Anything else raises
  \<open>ValueError\<close>, and so do more than \<open>MAX_STR_DIGITS\<close> digits (the default of
  \<^verbatim>\<open>sys.int_max_str_digits\<close> since CPython 3.11; leading zeros count, underscores,
  sign and whitespace do not). The model covers ASCII strings.
\<close>

definition MAX_STR_DIGITS :: nat where
  "MAX_STR_DIGITS = 4300"

definition py_int :: "string \<Rightarrow> error + int" where
  "py_int s =
     (let t = strip s;
          (sgn, body) = (case t of
                           c # r \<Rightarrow> if c = CHR ''-'' then (- 1, r)
                                    else if c = CHR ''+'' then (1, r) else (1, t)
                         | [] \<Rightarrow> (1, t));
          groups = split_on CHR ''_'' body
      in if list_all (\<lambda>g. g \<noteq> [] \<and> list_all is_digit g) groups
            \<and> length (concat groups) \<le> MAX_STR_DIGITS
         then Inr (sgn * digits_value (concat groups))
         else Inl ValueError)"

text \<open>\<^verbatim>\<open>arrival_hour, arrival_minute = map(int, train.arrival_time.split(':'))\<close>:
  unpacking anything but two fields raises \<open>ValueError\<close>, as does either \<^verbatim>\<open>int\<close>.\<close>

definition parse_arrival :: "string \<Rightarrow> error + (int \<times> int)" where
  "parse_arrival s =
     (case split_on CHR '':'' s of
        [a, b] \<Rightarrow> (case py_int a of
                     Inl e \<Rightarrow> Inl e
                   | Inr h \<Rightarrow> (case py_int b of Inl e \<Rightarrow> Inl e | Inr m \<Rightarrow> Inr (h, m)))
      | _ \<Rightarrow> Inl ValueError)"

text \<open>
  \<^verbatim>\<open>datetime.strptime(s, '%H:%M')\<close>, of which the source reads the hour and the
  minute. The hour is one digit, or two digits up to 23; the minute is one digit, or two
  digits up to 59; nothing may follow.
\<close>

definition valid_field :: "int \<Rightarrow> string \<Rightarrow> bool" where
  "valid_field bound f =
     (list_all is_digit f \<and> (length f = 1 \<or> (length f = 2 \<and> digits_value f \<le> bound)))"

definition strptime_HM :: "string \<Rightarrow> error + (int \<times> int)" where
  "strptime_HM s =
     (case split_on CHR '':'' s of
        [h, m] \<Rightarrow> if valid_field 23 h \<and> valid_field 59 m
                  then Inr (digits_value h, digits_value m) else Inl ValueError
      | _ \<Rightarrow> Inl ValueError)"




section \<open>Closure schedule\<close>

record closure =
  c_train_number :: string
  closure_start :: string
  closure_end :: string
  duration_minutes :: int
  c_priority :: string
  c_platform :: string

text \<open>The arrival instant: the parsed hour and minute put into the current date.\<close>

definition arrival_datetime :: "datetime \<Rightarrow> TrainSchedule \<Rightarrow> error + datetime" where
  "arrival_datetime now train =
     (case parse_arrival (arrival_time train) of
        Inl e \<Rightarrow> Inl e
      | Inr (arrival_hour, arrival_minute) \<Rightarrow> replace_hm now arrival_hour arrival_minute)"

text \<open>The two instants of one pass of the loop: closure start and closure end.\<close>

definition closure_instants :: "datetime \<Rightarrow> TrainSchedule \<Rightarrow> error + (datetime \<times> datetime)" where
  "closure_instants now train =
     (case arrival_datetime now train of
        Inl e \<Rightarrow> Inl e
      | Inr arrival \<Rightarrow>
          (case timedelta_minutes 5 of
             Inl e \<Rightarrow> Inl e
           | Inr five \<Rightarrow>
               (case dt_sub arrival five of
                  Inl e \<Rightarrow> Inl e
                | Inr cstart \<Rightarrow>
                    (case timedelta_minutes (gate_closure_duration train) of
                       Inl e \<Rightarrow> Inl e
                     | Inr dur \<Rightarrow>
                         (case dt_add arrival dur of
                            Inl e \<Rightarrow> Inl e
                          | Inr cend \<Rightarrow> Inr (cstart, cend))))))"

definition closure_entry :: "datetime \<Rightarrow> TrainSchedule \<Rightarrow> error + closure" where
  "closure_entry now train =
     (case closure_instants now train of
        Inl e \<Rightarrow> Inl e
      | Inr (cstart, cend) \<Rightarrow>
          Inr \<lparr>c_train_number = train_number train,
               closure_start = strftime_HM cstart,
               closure_end = strftime_HM cend,
               duration_minutes = gate_closure_duration train + 5,
               c_priority = priority train,
               c_platform = platform train\<rparr>)"

text \<open>
  The loop over the trains appends one entry per train; an exception leaves the loop
  and the function. The clock is read once per pass and only its date is used, so one
  reading \<open>now\<close> stands for all of them.
\<close>

fun closure_loop :: "datetime \<Rightarrow> TrainSchedule list \<Rightarrow> closure list \<Rightarrow> error + closure list" where
  "closure_loop now [] closure_schedule = Inr closure_schedule"
| "closure_loop now (train # trains) closure_schedule =
     (case closure_entry now train of
        Inl e \<Rightarrow> Inl e
      | Inr c \<Rightarrow> closure_loop now trains (closure_schedule @ [c]))"

text \<open>\<^verbatim>\<open>list.sort(key=...)\<close> is a stable sort, as \<open>sort_key\<close> is.\<close>

definition calculate_gate_closure_schedule ::
  "datetime \<Rightarrow> TrainSchedule list \<Rightarrow> error + closure list" where
  "calculate_gate_closure_schedule now sample_trains =
     (case closure_loop now sample_trains [] of
        Inl e \<Rightarrow> Inl e
      | Inr closure_schedule \<Rightarrow> Inr (sort_key closure_start closure_schedule))"

text \<open>
  What the specification calls a well-formed "HH:MM" string: two digits, a colon, two
  digits, the hour at most 23 and the minute at most 59; and the minute of the day it
  denotes.
\<close>

definition well_formed_HHMM :: "string \<Rightarrow> bool" where
  "well_formed_HHMM s =
     (case s of
        [a, b, c, d, e] \<Rightarrow>
          is_digit a \<and> is_digit b \<and> c = CHR '':'' \<and> is_digit d \<and> is_digit e
          \<and> digit_val a * 10 + digit_val b \<le> 23 \<and> digit_val d * 10 + digit_val e \<le> 59
      | _ \<Rightarrow> False)"

definition hhmm_hour :: "string \<Rightarrow> int" where
  "hhmm_hour s = digit_val (s ! 0) * 10 + digit_val (s ! 1)"

definition hhmm_minute :: "string \<Rightarrow> int" where
  "hhmm_minute s = digit_val (s ! 3) * 10 + digit_val (s ! 4)"

definition minute_of_day :: "string \<Rightarrow> int" where
  "minute_of_day s = hhmm_hour s * 60 + hhmm_minute s"

text \<open>
  The closure instants of a train lie within the calendar of \<^verbatim>\<open>datetime\<close> (years 1
  to 9999), and its closure duration is a representable \<^verbatim>\<open>timedelta\<close>.
\<close>

definition in_calendar :: "datetime \<Rightarrow> TrainSchedule \<Rightarrow> bool" where
  "in_calendar now train =
     (0 < day now + (minute_of_day (arrival_time train) - 5) div 1440
      \<and> \<bar>(gate_closure_duration train * 60) div 86400\<bar> \<le> 999999999
      \<and> 0 < day now + (minute_of_day (arrival_time train) + gate_closure_duration train) div 1440
      \<and> day now + (minute_of_day (arrival_time train) + gate_closure_duration train) div 1440
          \<le> MAXORDINAL)"

text \<open>
  The closure instants and the closure window of a well-formed record in closed form:
  the minute of the day of the arrival, moved by 5 minutes back and by the closure
  duration forward, carried into the date.
\<close>

definition start_instant :: "datetime \<Rightarrow> TrainSchedule \<Rightarrow> datetime" where
  "start_instant now t =
     \<lparr>day = day now + (minute_of_day (arrival_time t) - 5) div 1440,
      hour = ((minute_of_day (arrival_time t) - 5) mod 1440) div 60,
      minute = ((minute_of_day (arrival_time t) - 5) mod 1440) mod 60,
      second = 0, microsecond = 0\<rparr>"

definition end_instant :: "datetime \<Rightarrow> TrainSchedule \<Rightarrow> datetime" where
  "end_instant now t =
     \<lparr>day = day now + (minute_of_day (arrival_time t) + gate_closure_duration t) div 1440,
      hour = ((minute_of_day (arrival_time t) + gate_closure_duration t) mod 1440) div 60,
      minute = ((minute_of_day (arrival_time t) + gate_closure_duration t) mod 1440) mod 60,
      second = 0, microsecond = 0\<rparr>"

definition window_of :: "datetime \<Rightarrow> TrainSchedule \<Rightarrow> closure" where
  "window_of now t =
     \<lparr>c_train_number = train_number t,
      closure_start = strftime_HM (start_instant now t),
      closure_end = strftime_HM (end_instant now t),
      duration_minutes = gate_closure_duration t + 5,
      c_priority = priority t,
      c_platform = platform t\<rparr>"

section \<open>Wait-time predictor\<close>

record prediction =
  minutes_until_closure :: int
  closure_duration :: int
  total_wait_if_caught :: int
  recommended_action :: string

text \<open>
  The loop of \<^verbatim>\<open>predict_wait_times\<close> over the closure schedule. The result is a
  dictionary keyed by train number; a later entry with the same key overwrites an
  earlier one. The closure schedule reads the clock after \<^verbatim>\<open>current_time\<close> was
  taken and uses the date only; \<open>current_time\<close> stands for these readings.
\<close>

fun wait_loop ::
  "datetime \<Rightarrow> closure list \<Rightarrow> (string \<rightharpoonup> prediction) \<Rightarrow> error + (string \<rightharpoonup> prediction)" where
  "wait_loop current_time [] wait_predictions = Inr wait_predictions"
| "wait_loop current_time (c # cs) wait_predictions =
     (case strptime_HM (closure_start c) of
        Inl e \<Rightarrow> Inl e
      | Inr (h, m) \<Rightarrow>
          (case replace_hm current_time h m of
             Inl e \<Rightarrow> Inl e
           | Inr closure_start_time \<Rightarrow>
               if dt_less current_time closure_start_time
               then let minutes_until = minutes_of_delta (dt_diff closure_start_time current_time)
                    in wait_loop current_time cs
                         (wait_predictions(c_train_number c \<mapsto>
                            \<lparr>minutes_until_closure = minutes_until,
                             closure_duration = duration_minutes c,
                             total_wait_if_caught = duration_minutes c,
                             recommended_action =
                               get_wait_recommendation minutes_until (duration_minutes c)\<rparr>))
               else wait_loop current_time cs wait_predictions))"

definition predict_wait_times ::
  "datetime \<Rightarrow> TrainSchedule list \<Rightarrow> error + (string \<rightharpoonup> prediction)" where
  "predict_wait_times current_time trains =
     (case calculate_gate_closure_schedule current_time trains of
        Inl e \<Rightarrow> Inl e
      | Inr closure_schedule \<Rightarrow> wait_loop current_time closure_schedule Map.empty)"

text \<open>
  The instant that a window's closure start string denotes on the date of \<open>now\<close>, and
  the prediction of a window in closed form.
\<close>

definition closure_start_on :: "datetime \<Rightarrow> closure \<Rightarrow> datetime" where
  "closure_start_on now c =
     (case strptime_HM (closure_start c) of
        Inr (h, m) \<Rightarrow> now\<lparr>hour := h, minute := m, second := 0, microsecond := 0\<rparr>
      | Inl e \<Rightarrow> now)"

definition prediction_of :: "datetime \<Rightarrow> closure \<Rightarrow> prediction" where
  "prediction_of now c =
     \<lparr>minutes_until_closure = (to_us (closure_start_on now c) - to_us now) div 60000000,
      closure_duration = duration_minutes c,
      total_wait_if_caught = duration_minutes c,
      recommended_action =
        get_wait_recommendation ((to_us (closure_start_on now c) - to_us now) div 60000000)
          (duration_minutes c)\<rparr>"

definition wait_step :: "datetime \<Rightarrow> (string \<rightharpoonup> prediction) \<Rightarrow> closure \<Rightarrow> (string \<rightharpoonup> prediction)" where
  "wait_step now preds c =
     (if to_us now < to_us (closure_start_on now c)
      then preds(c_train_number c \<mapsto> prediction_of now c) else preds)"

section \<open>Alert generator\<close>








section \<open>Route ranker\<close>

text \<open>
  Route objects live in a store: a reference is an address, and the list
  \<^verbatim>\<open>alternative_routes\<close> is a list of references. \<^verbatim>\<open>optimize_routes\<close> copies the
  list (\<^verbatim>\<open>list.copy()\<close> makes a new list of the same references) and then assigns to
  the fields of the objects it refers to.
\<close>

type_synonym ref = nat

type_synonym 'f store = "ref \<Rightarrow> 'f Route"

text \<open>
  What one pass of the adjustment loop takes from outside: the three values drawn by
  \<^verbatim>\<open>random.uniform\<close> for the dictionary of multipliers, and the hour read from the
  clock.
\<close>

record 'f sample =
  low_draw :: 'f
  medium_draw :: 'f
  high_draw :: 'f
  hour_read :: int

text \<open>The dictionary lookup \<^verbatim>\<open>{...}.get(route.traffic_level, 1.0)\<close>; \<open>one\<close> is the
  float 1.0.\<close>

definition traffic_multiplier :: "'f \<Rightarrow> 'f sample \<Rightarrow> string \<Rightarrow> 'f" where
  "traffic_multiplier one smp lvl =
     (if lvl = ''low'' then low_draw smp
      else if lvl = ''medium'' then medium_draw smp
      else if lvl = ''high'' then high_draw smp
      else one)"

text \<open>
  The body of the adjustment loop for one route. \<open>int_mul n m\<close> stands for
  \<^verbatim>\<open>int(n * m)\<close>, the float product of an integer and a float truncated to an integer;
  floating point arithmetic is a parameter of the model.
\<close>

definition adjust_route :: "(int \<Rightarrow> 'f \<Rightarrow> int) \<Rightarrow> 'f \<Rightarrow> 'f sample \<Rightarrow> 'f Route \<Rightarrow> 'f Route" where
  "adjust_route int_mul one smp r =
     (let traffic_mult = traffic_multiplier one smp (traffic_level r);
          r1 = r\<lparr>additional_time_minutes := int_mul (additional_time_minutes r) traffic_mult\<rparr>;
          current_hour = hour_read smp
      in if (7 \<le> current_hour \<and> current_hour \<le> 9) \<or> (17 \<le> current_hour \<and> current_hour \<le> 19)
         then (if traffic_level r1 = ''low'' then r1\<lparr>traffic_level := ''medium''\<rparr>
               else if traffic_level r1 = ''medium'' then r1\<lparr>traffic_level := ''high''\<rparr>
               else r1)
         else r1)"

text \<open>The adjustment loop; \<open>env i\<close> is what pass \<open>i\<close> takes from outside.\<close>

fun adjust_loop ::
  "(int \<Rightarrow> 'f \<Rightarrow> int) \<Rightarrow> 'f \<Rightarrow> (nat \<Rightarrow> 'f sample) \<Rightarrow> nat \<Rightarrow> ref list \<Rightarrow> 'f store \<Rightarrow> 'f store" where
  "adjust_loop int_mul one env i [] st = st"
| "adjust_loop int_mul one env i (r # rs) st =
     adjust_loop int_mul one env (Suc i) rs
       (st(r := adjust_route int_mul one (env i) (st r)))"

fun clear_loop :: "ref list \<Rightarrow> 'f store \<Rightarrow> 'f store" where
  "clear_loop [] st = st"
| "clear_loop (r # rs) st = clear_loop rs (st(r := (st r)\<lparr>recommended := False\<rparr>))"

text \<open>
  \<^verbatim>\<open>optimize_routes\<close>: the store after the call and the returned list. The list
  \<^verbatim>\<open>self.alternative_routes\<close> itself is not assigned to.
\<close>

definition optimize_routes ::
  "(int \<Rightarrow> 'f \<Rightarrow> int) \<Rightarrow> 'f \<Rightarrow> (nat \<Rightarrow> 'f sample) \<Rightarrow> 'f store \<Rightarrow> ref list
     \<Rightarrow> 'f store \<times> ref list" where
  "optimize_routes int_mul one env st alternative_routes =
     (let copied = alternative_routes;
          st1 = adjust_loop int_mul one env 0 copied st;
          optimized_routes = sort_key (\<lambda>r. additional_time_minutes (st1 r)) copied;
          st2 = clear_loop optimized_routes st1;
          st3 = (case optimized_routes of
                   [] \<Rightarrow> st2
                 | r # rs \<Rightarrow> st2(r := (st2 r)\<lparr>recommended := True\<rparr>))
      in (st3, optimized_routes))"

section \<open>The sample data of the source\<close>

definition exp_12345 :: TrainSchedule where
  "exp_12345 =
     \<lparr>train_number = ''EXP-12345'', arrival_time = ''14:30'', departure_time = ''14:38'',
      platform = ''3'', route = ''Mumbai-Delhi Express'', status = ''ontime'',
      delay_minutes = 0, gate_closure_duration = 8, priority = ''high''\<rparr>"

definition loc_67890 :: TrainSchedule where
  "loc_67890 =
     \<lparr>train_number = ''LOC-67890'', arrival_time = ''14:45'', departure_time = ''14:51'',
      platform = ''1'', route = ''Local Passenger Service'', status = ''delayed'',
      delay_minutes = 15, gate_closure_duration = 8, priority = ''normal''\<rparr>"

definition frt_11111 :: TrainSchedule where
  "frt_11111 =
     \<lparr>train_number = ''FRT-11111'', arrival_time = ''15:15'', departure_time = ''15:27'',
      platform = ''2'', route = ''Freight Service'', status = ''approaching'',
      delay_minutes = 0, gate_closure_duration = 12, priority = ''low''\<rparr>"

definition exp_22222 :: TrainSchedule where
  "exp_22222 =
     \<lparr>train_number = ''EXP-22222'', arrival_time = ''15:45'', departure_time = ''15:52'',
      platform = ''4'', route = ''Chennai-Kolkata Express'', status = ''ontime'',
      delay_minutes = 0, gate_closure_duration = 8, priority = ''high''\<rparr>"

definition psg_33333 :: TrainSchedule where
  "psg_33333 =
     \<lparr>train_number = ''PSG-33333'', arrival_time = ''16:20'', departure_time = ''16:29'',
      platform = ''1'', route = ''Inter-city Passenger'', status = ''ontime'',
      delay_minutes = 0, gate_closure_duration = 8, priority = ''normal''\<rparr>"

definition sample_trains :: "TrainSchedule list" where
  "sample_trains = [exp_12345, loc_67890, frt_11111, exp_22222, psg_33333]"

definition example_now :: datetime where
  "example_now = \<lparr>day = 739923, hour = 14, minute = 20, second = 30, microsecond = 0\<rparr>"

text \<open>A later instant of the same day, at a closure start of the sample.\<close>

definition example_later :: datetime where
  "example_later = \<lparr>day = 739923, hour = 14, minute = 40, second = 0, microsecond = 0\<rparr>"

text \<open>
  An instance of the float product on rational multipliers: the exact product, truncated
  toward zero. It is what \<^verbatim>\<open>int(n * m)\<close> computes whenever the product is
  representable, as it is for the multipliers 1, 5/4 and 3/2 of the examples below.
\<close>

definition exact_int_mul :: "int \<Rightarrow> rat \<Rightarrow> int" where
  "exact_int_mul n m =
     (if 0 \<le> of_int n * m then \<lfloor>of_int n * m\<rfloor> else \<lceil>of_int n * m\<rceil>)"

text \<open>The four routes of \<^verbatim>\<open>initialize_routes\<close>, at the addresses 0 to 3; no other
  address is referred to. The float fields carry the values of their decimal literals.\<close>

definition r001 :: "rat Route" where
  "r001 = \<lparr>route_id = ''R001'', name = ''Highway Bypass'', distance_km = 41 / 5,
            additional_time_minutes = 15, traffic_level = ''medium'',
            road_conditions = ''good'', recommended = False, toll_cost = 25\<rparr>"

definition r002 :: "rat Route" where
  "r002 = \<lparr>route_id = ''R002'', name = ''City Center Route'', distance_km = 39 / 5,
            additional_time_minutes = 12, traffic_level = ''high'',
            road_conditions = ''fair'', recommended = False, toll_cost = 0\<rparr>"

definition r003 :: "rat Route" where
  "r003 = \<lparr>route_id = ''R003'', name = ''Industrial Zone'', distance_km = 91 / 10,
            additional_time_minutes = 18, traffic_level = ''low'',
            road_conditions = ''excellent'', recommended = False, toll_cost = 15\<rparr>"

definition r004 :: "rat Route" where
  "r004 = \<lparr>route_id = ''R004'', name = ''Bridge Road'', distance_km = 13 / 2,
            additional_time_minutes = 8, traffic_level = ''low'',
            road_conditions = ''good'', recommended = True, toll_cost = 10\<rparr>"

definition initial_store :: "rat store" where
  "initial_store = (\<lambda>r. r004)(0 := r001, 1 := r002, 2 := r003)"

definition alternative_routes :: "ref list" where
  "alternative_routes = [0, 1, 2, 3]"

text \<open>A morning rush hour, with draws inside the three ranges of the source.\<close>

definition rush_env :: "nat \<Rightarrow> rat sample" where
  "rush_env = (\<lambda>i. \<lparr>low_draw = 1, medium_draw = 5 / 4, high_draw = 3 / 2, hour_read = 8\<rparr>)"

definition after_first :: "rat store" where
  "after_first = initial_store
     (0 := r001\<lparr>additional_time_minutes := 18, traffic_level := ''high''\<rparr>,
      1 := r002\<lparr>additional_time_minutes := 18\<rparr>,
      2 := r003\<lparr>traffic_level := ''medium''\<rparr>,
      3 := r004\<lparr>traffic_level := ''medium''\<rparr>)"

definition first_store :: "rat store" where
  "first_store = fst (optimize_routes exact_int_mul 1 rush_env initial_store alternative_routes)"

section \<open>Lemmas on strings\<close>

lemma is_digit_cases:
  "is_digit c = (c = CHR ''0'' \<or> c = CHR ''1'' \<or> c = CHR ''2'' \<or> c = CHR ''3'' \<or> c = CHR ''4''
     \<or> c = CHR ''5'' \<or> c = CHR ''6'' \<or> c = CHR ''7'' \<or> c = CHR ''8'' \<or> c = CHR ''9'')"
  by (simp add: is_digit_def)

lemma is_digit_not_special:
  assumes "is_digit c"
  shows "c \<noteq> CHR '':''" "c \<noteq> CHR ''_''" "c \<noteq> CHR ''-''" "c \<noteq> CHR ''+''" "\<not> is_space c"
  using assms by (auto simp: is_digit_cases is_space_def)

lemma digit_val_range:
  assumes "is_digit c"
  shows "0 \<le> digit_val c" "digit_val c \<le> 9"
  using assms by (auto simp: is_digit_cases digit_val_def)

lemma digit_char_cases:
  assumes "0 \<le> n" "n \<le> 9"
  shows "n \<in> {0, 1, 2, 3, 4, 5, 6, 7, 8, 9 :: int}"
  using assms unfolding insert_iff empty_iff by arith

lemma digit_char_digit:
  assumes "0 \<le> n" "n \<le> 9"
  shows "is_digit (digit_char n)" "digit_val (digit_char n) = n"
  using digit_char_cases[OF assms]
  by (auto simp: digit_char_def is_digit_def digit_val_def)

lemma split_on_no_sep:
  "d \<notin> set s \<Longrightarrow> split_on d s = [s]"
  by (induction s) auto

lemma split_on_append_sep:
  "d \<notin> set a \<Longrightarrow> split_on d (a @ d # b) = a # split_on d b"
  by (induction a) auto

lemma strip_digits:
  assumes "s \<noteq> []" "\<not> is_space (hd s)" "\<not> is_space (last s)"
  shows "strip s = s"
proof -
  from assms have a: "dropWhile is_space s = s"
    by (cases s) auto
  from assms have "dropWhile is_space (rev s) = rev s"
    by (cases "rev s") (auto simp: last_rev hd_rev)
  with a show ?thesis by (simp add: strip_def)
qed

lemma py_int_two_digits:
  assumes "is_digit a" "is_digit b"
  shows "py_int [a, b] = Inr (digit_val a * 10 + digit_val b)"
proof -
  have s: "strip [a, b] = [a, b]"
    using assms by (intro strip_digits) (auto dest: is_digit_not_special)
  have sp: "split_on CHR ''_'' [a, b] = [[a, b]]"
    using assms by (intro split_on_no_sep) (auto dest: is_digit_not_special)
  show ?thesis
    using assms is_digit_not_special[OF assms(1)] is_digit_not_special[OF assms(2)]
    by (simp add: py_int_def s sp digits_value_def MAX_STR_DIGITS_def)
qed

lemma parse_arrival_well_formed:
  assumes "well_formed_HHMM s"
  shows "parse_arrival s = Inr (hhmm_hour s, hhmm_minute s)"
    and "0 \<le> hhmm_hour s" and "hhmm_hour s \<le> 23"
    and "0 \<le> hhmm_minute s" and "hhmm_minute s \<le> 59"
proof -
  from assms obtain a b d e where s: "s = [a, b, CHR '':'', d, e]"
    and dig: "is_digit a" "is_digit b" "is_digit d" "is_digit e"
    and rng: "digit_val a * 10 + digit_val b \<le> 23" "digit_val d * 10 + digit_val e \<le> 59"
    by (auto simp: well_formed_HHMM_def split: list.splits)
  have "split_on CHR '':'' ([a, b] @ CHR '':'' # [d, e]) = [a, b] # split_on CHR '':'' [d, e]"
    using dig by (intro split_on_append_sep) (auto dest: is_digit_not_special)
  moreover have "split_on CHR '':'' [d, e] = [[d, e]]"
    using dig by (intro split_on_no_sep) (auto dest: is_digit_not_special)
  ultimately have sp: "split_on CHR '':'' s = [[a, b], [d, e]]"
    by (simp add: s)
  show "parse_arrival s = Inr (hhmm_hour s, hhmm_minute s)"
    unfolding parse_arrival_def sp
    by (simp add: py_int_two_digits dig hhmm_hour_def hhmm_minute_def s)
  show "0 \<le> hhmm_hour s" "hhmm_hour s \<le> 23" "0 \<le> hhmm_minute s" "hhmm_minute s \<le> 59"
    using rng digit_val_range[OF dig(1)] digit_val_range[OF dig(2)]
      digit_val_range[OF dig(3)] digit_val_range[OF dig(4)]
    by (simp_all add: hhmm_hour_def hhmm_minute_def s)
qed

lemma two_digits_props:
  assumes "0 \<le> n" "n \<le> 99"
  shows "list_all is_digit (two_digits n)" "digits_value (two_digits n) = n"
    "length (two_digits n) = 2" "CHR '':'' \<notin> set (two_digits n)"
proof -
  have a: "0 \<le> n div 10" "n div 10 \<le> 9" "0 \<le> n mod 10" "n mod 10 \<le> 9"
    using assms by auto
  show "list_all is_digit (two_digits n)"
    by (simp add: two_digits_def digit_char_digit a)
  show "digits_value (two_digits n) = n"
    by (simp add: two_digits_def digits_value_def digit_char_digit a)
  show "length (two_digits n) = 2" by (simp add: two_digits_def)
  show "CHR '':'' \<notin> set (two_digits n)"
    using digit_char_digit(1)[OF a(1,2)] digit_char_digit(1)[OF a(3,4)]
    by (auto simp: two_digits_def dest: is_digit_not_special)
qed

lemma strptime_strftime:
  assumes "0 \<le> hour dt" "hour dt \<le> 23" "0 \<le> minute dt" "minute dt \<le> 59"
  shows "strptime_HM (strftime_HM dt) = Inr (hour dt, minute dt)"
proof -
  have h: "0 \<le> hour dt" "hour dt \<le> 99" and m: "0 \<le> minute dt" "minute dt \<le> 99"
    using assms by auto
  have "split_on CHR '':'' (two_digits (hour dt) @ CHR '':'' # two_digits (minute dt))
      = two_digits (hour dt) # split_on CHR '':'' (two_digits (minute dt))"
    by (rule split_on_append_sep) (rule two_digits_props(4)[OF h])
  moreover have "split_on CHR '':'' (two_digits (minute dt)) = [two_digits (minute dt)]"
    by (rule split_on_no_sep) (rule two_digits_props(4)[OF m])
  ultimately have sp: "split_on CHR '':'' (strftime_HM dt) = [two_digits (hour dt), two_digits (minute dt)]"
    by (simp add: strftime_HM_def)
  show ?thesis
    using assms
    by (simp add: strptime_HM_def sp valid_field_def two_digits_props[OF h] two_digits_props[OF m])
qed

section \<open>Lemmas on dates and times\<close>

lemma dt_add_Inr:
  assumes "dt_add dt td = Inr r"
  shows "r = \<lparr>day = (to_us dt + td) div 86400000000,
              hour = ((to_us dt + td) mod 86400000000) div 1000000 div 3600,
              minute = (((to_us dt + td) mod 86400000000) div 1000000 mod 3600) div 60,
              second = (((to_us dt + td) mod 86400000000) div 1000000 mod 3600) mod 60,
              microsecond = (to_us dt + td) mod 1000000\<rparr>"
proof (cases "0 < (to_us dt + td) div 86400000000
    \<and> (to_us dt + td) div 86400000000 \<le> MAXORDINAL")
  case True
  then have "dt_add dt td = Inr \<lparr>day = (to_us dt + td) div 86400000000,
              hour = ((to_us dt + td) mod 86400000000) div 1000000 div 3600,
              minute = (((to_us dt + td) mod 86400000000) div 1000000 mod 3600) div 60,
              second = (((to_us dt + td) mod 86400000000) div 1000000 mod 3600) mod 60,
              microsecond = (to_us dt + td) mod 1000000\<rparr>"
    unfolding dt_add_def Let_def by (rule if_P)
  with assms show ?thesis by (metis sum.inject(2))
next
  case False
  then have "dt_add dt td = Inl OverflowError"
    unfolding dt_add_def Let_def by (rule if_not_P)
  with assms show ?thesis by (metis sum.distinct(1))
qed

lemma to_us_dt_add:
  assumes "dt_add dt td = Inr r"
  shows "to_us r = to_us dt + td"
proof -
  define t where "t = to_us dt + td"
  define secs where "secs = (t mod 86400000000) div 1000000"
  have r: "r = \<lparr>day = t div 86400000000, hour = secs div 3600, minute = (secs mod 3600) div 60,
                 second = (secs mod 3600) mod 60, microsecond = t mod 1000000\<rparr>"
    unfolding secs_def t_def by (rule dt_add_Inr[OF assms])
  have a: "(secs div 3600 * 60 + (secs mod 3600) div 60) * 60 + (secs mod 3600) mod 60 = secs"
  proof -
    have "(secs div 3600 * 60 + (secs mod 3600) div 60) * 60 + (secs mod 3600) mod 60
        = secs div 3600 * 3600 + ((secs mod 3600) div 60 * 60 + (secs mod 3600) mod 60)"
      by (simp add: algebra_simps)
    also have "\<dots> = secs div 3600 * 3600 + secs mod 3600"
      by (simp only: div_mult_mod_eq)
    also have "\<dots> = secs" by (simp only: div_mult_mod_eq)
    finally show ?thesis .
  qed
  have "(t mod 86400000000) mod 1000000 = t mod 1000000"
    by (rule mod_mod_cancel) simp
  then have b: "secs * 1000000 + t mod 1000000 = t mod 86400000000"
    unfolding secs_def by (metis div_mult_mod_eq)
  have "to_us r = t div 86400000000 * 86400000000 + (secs * 1000000 + t mod 1000000)"
    by (simp add: r to_us_def us_of_day_def a)
  also have "\<dots> = t" by (simp only: b div_mult_mod_eq)
  finally show ?thesis by (simp add: t_def)
qed

lemma dt_add_fields:
  assumes "dt_add dt td = Inr r"
  shows "0 \<le> hour r" "hour r \<le> 23" "0 \<le> minute r" "minute r \<le> 59"
proof -
  define secs where "secs = ((to_us dt + td) mod 86400000000) div 1000000"
  have "hour r = secs div 3600 \<and> minute r = (secs mod 3600) div 60"
    unfolding secs_def by (subst (1 2) dt_add_Inr[OF assms]) (simp only: datetime.select_convs)
  then have r: "hour r = secs div 3600" "minute r = (secs mod 3600) div 60"
    by simp_all
  have "0 \<le> (to_us dt + td) mod 86400000000"
    "(to_us dt + td) mod 86400000000 < 86400000000" by simp_all
  then have s: "0 \<le> secs" "secs < 86400" unfolding secs_def by simp_all
  show "0 \<le> hour r" "hour r \<le> 23" using s unfolding r by simp_all
  have "0 \<le> secs mod 3600" "secs mod 3600 < 3600" by simp_all
  then show "0 \<le> minute r" "minute r \<le> 59" unfolding r by simp_all
qed

lemma dt_add_minutes:
  assumes "second dt = 0" "microsecond dt = 0"
  shows "dt_add dt (k * 60000000) =
     (if 0 < day dt + (hour dt * 60 + minute dt + k) div 1440
         \<and> day dt + (hour dt * 60 + minute dt + k) div 1440 \<le> MAXORDINAL
      then Inr \<lparr>day = day dt + (hour dt * 60 + minute dt + k) div 1440,
                hour = ((hour dt * 60 + minute dt + k) mod 1440) div 60,
                minute = ((hour dt * 60 + minute dt + k) mod 1440) mod 60,
                second = 0, microsecond = 0\<rparr>
      else Inl OverflowError)"
proof -
  define T where "T = hour dt * 60 + minute dt + k"
  define X where "X = day dt * 1440 + T"
  define Y where "Y = T mod 1440"
  have t: "to_us dt + k * 60000000 = X * 60000000"
    by (simp add: to_us_def us_of_day_def assms X_def T_def algebra_simps)
  have d: "(X * 60000000) div 86400000000 = day dt + T div 1440"
  proof -
    have "(X * 60000000) div (1440 * 60000000) = X div 1440"
      by (rule div_mult_mult2) simp
    moreover have "X div 1440 = day dt + T div 1440"
      by (simp add: X_def)
    ultimately show ?thesis by simp
  qed
  have m: "(X * 60000000) mod 86400000000 = Y * 60000000"
  proof -
    have "(X * 60000000) mod (1440 * 60000000) = (X mod 1440) * 60000000"
      by (rule mod_mult_mult2)
    moreover have "X mod 1440 = Y" by (simp add: X_def Y_def)
    ultimately show ?thesis by simp
  qed
  have s: "(Y * 60000000) div 1000000 = Y * 60"
    by simp
  have u: "(X * 60000000) mod 1000000 = 0"
    by simp
  have h: "(Y * 60) div 3600 = Y div 60"
  proof -
    have "(Y * 60) div (60 * 60) = Y div 60" by (rule div_mult_mult2) simp
    then show ?thesis by simp
  qed
  have r: "(Y * 60) mod 3600 = (Y mod 60) * 60"
  proof -
    have "(Y * 60) mod (60 * 60) = (Y mod 60) * 60" by (rule mod_mult_mult2)
    then show ?thesis by simp
  qed
  show ?thesis
    unfolding dt_add_def Let_def t d m s u h r
    by (simp add: T_def Y_def)
qed

lemma mod_1440_range:
  "0 \<le> ((T::int) mod 1440) div 60" "(T mod 1440) div 60 \<le> 23"
  "0 \<le> (T mod 1440) mod 60" "(T mod 1440) mod 60 \<le> 59"
proof -
  have "0 \<le> T mod 1440" "T mod 1440 < 1440" by simp_all
  then show "0 \<le> (T mod 1440) div 60" "(T mod 1440) div 60 \<le> 23" by simp_all
  show "0 \<le> (T mod 1440) mod 60" "(T mod 1440) mod 60 \<le> 59" by simp_all
qed

lemma us_of_day_range:
  assumes "valid_datetime a"
  shows "0 \<le> us_of_day a" "us_of_day a < 86400000000"
  using assms unfolding us_of_day_def valid_datetime_def by auto

lemma us_of_day_less:
  assumes "valid_datetime a" "valid_datetime b"
  shows "(us_of_day a < us_of_day b) =
     (hour a < hour b \<or> (hour a = hour b \<and>
         (minute a < minute b \<or> (minute a = minute b \<and>
           (second a < second b \<or> (second a = second b \<and>
             microsecond a < microsecond b))))))"
  using assms unfolding us_of_day_def valid_datetime_def by auto

lemma dt_less_to_us:
  assumes "valid_datetime a" "valid_datetime b"
  shows "dt_less a b = (to_us a < to_us b)"
proof -
  note ra = us_of_day_range[OF assms(1)] and rb = us_of_day_range[OF assms(2)]
  have "(to_us a < to_us b) = (day a < day b \<or> (day a = day b \<and> us_of_day a < us_of_day b))"
    unfolding to_us_def using ra rb by auto
  then show ?thesis
    unfolding dt_less_def us_of_day_less[OF assms] by simp
qed

section \<open>Lemmas on the closure schedule\<close>

lemma arrival_datetime_well_formed:
  assumes "well_formed_HHMM (arrival_time t)"
  shows "arrival_datetime now t =
     Inr (now\<lparr>hour := hhmm_hour (arrival_time t), minute := hhmm_minute (arrival_time t),
              second := 0, microsecond := 0\<rparr>)"
  using parse_arrival_well_formed[OF assms]
  by (simp add: arrival_datetime_def replace_hm_def fits_c_int_def)

lemma arrival_shift_well_formed:
  assumes "valid_datetime now" "well_formed_HHMM (arrival_time t)" "in_calendar now t"
  defines "arrival \<equiv> now\<lparr>hour := hhmm_hour (arrival_time t),
      minute := hhmm_minute (arrival_time t), second := 0, microsecond := 0\<rparr>"
  shows "dt_sub arrival 300000000 = Inr (start_instant now t)"
    and "dt_add arrival (gate_closure_duration t * 60000000) = Inr (end_instant now t)"
proof -
  have al: "second arrival = 0" "microsecond arrival = 0"
    by (simp_all add: arrival_def)
  have hm: "hour arrival * 60 + minute arrival = minute_of_day (arrival_time t)"
    "day arrival = day now"
    by (simp_all add: arrival_def minute_of_day_def)
  have up: "day now + (minute_of_day (arrival_time t) - 5) div 1440 \<le> MAXORDINAL"
  proof -
    have "minute_of_day (arrival_time t) - 5 < 1440"
      using parse_arrival_well_formed(2-5)[OF assms(2)] by (simp add: minute_of_day_def)
    then have "(minute_of_day (arrival_time t) - 5) div 1440 \<le> 0"
      by simp
    with assms(1) show ?thesis by (simp add: valid_datetime_def)
  qed
  have s: "dt_sub arrival 300000000 = Inr (start_instant now t)"
  proof -
    have "dt_sub arrival 300000000 = dt_add arrival (- 5 * 60000000)"
      by (simp add: dt_sub_def)
    also have "\<dots> = Inr (start_instant now t)"
      unfolding dt_add_minutes[OF al]
      using assms(3) up by (simp add: hm in_calendar_def start_instant_def)
    finally show ?thesis .
  qed
  have e: "dt_add arrival (gate_closure_duration t * 60000000) = Inr (end_instant now t)"
    unfolding dt_add_minutes[OF al]
    using assms(3) by (simp add: hm in_calendar_def end_instant_def)
  show "dt_sub arrival 300000000 = Inr (start_instant now t)" by (rule s)
  show "dt_add arrival (gate_closure_duration t * 60000000) = Inr (end_instant now t)"
    by (rule e)
qed

lemma closure_instants_well_formed:
  assumes "valid_datetime now" "well_formed_HHMM (arrival_time t)" "in_calendar now t"
  shows "closure_instants now t = Inr (start_instant now t, end_instant now t)"
proof -
  define arrival where "arrival = now\<lparr>hour := hhmm_hour (arrival_time t),
      minute := hhmm_minute (arrival_time t), second := 0, microsecond := 0\<rparr>"
  have arr: "arrival_datetime now t = Inr arrival"
    unfolding arrival_def by (rule arrival_datetime_well_formed[OF assms(2)])
  note se = arrival_shift_well_formed[OF assms, folded arrival_def]
  have td: "timedelta_minutes (gate_closure_duration t) = Inr (gate_closure_duration t * 60000000)"
  proof -
    have "\<not> \<bar>(gate_closure_duration t * 60) div 86400\<bar> > 999999999"
      using assms(3) unfolding in_calendar_def by linarith
    then show ?thesis unfolding timedelta_minutes_def by (simp only: if_False)
  qed
  have five: "timedelta_minutes 5 = Inr 300000000"
    by (simp add: timedelta_minutes_def)
  show ?thesis
    by (simp add: closure_instants_def arr five se td)
qed

lemma closure_entry_well_formed:
  assumes "valid_datetime now" "well_formed_HHMM (arrival_time t)" "in_calendar now t"
  shows "closure_entry now t = Inr (window_of now t)"
  by (simp add: closure_entry_def closure_instants_well_formed[OF assms] window_of_def)

lemma closure_loop_all_ok:
  assumes "\<forall>t\<in>set ts. closure_entry now t = Inr (f t)"
  shows "closure_loop now ts acc = Inr (acc @ map f ts)"
  using assms by (induction ts arbitrary: acc) simp_all













lemma start_end_instants:
  assumes "valid_datetime now" "well_formed_HHMM (arrival_time t)" "in_calendar now t"
  shows "valid_datetime (start_instant now t)" "valid_datetime (end_instant now t)"
    "to_us (start_instant now t)
       = day now * 86400000000 + minute_of_day (arrival_time t) * 60000000 - 5 * 60000000"
    "to_us (end_instant now t)
       = day now * 86400000000 + minute_of_day (arrival_time t) * 60000000
         + gate_closure_duration t * 60000000"
    "hour (start_instant now t) * 60 + minute (start_instant now t)
       = (minute_of_day (arrival_time t) - 5) mod 1440"
    "hour (end_instant now t) * 60 + minute (end_instant now t)
       = (minute_of_day (arrival_time t) + gate_closure_duration t) mod 1440"
proof -
  define arrival where "arrival = now\<lparr>hour := hhmm_hour (arrival_time t),
      minute := hhmm_minute (arrival_time t), second := 0, microsecond := 0\<rparr>"
  have arr: "arrival_datetime now t = Inr arrival"
    unfolding arrival_def by (rule arrival_datetime_well_formed[OF assms(2)])
  have ua: "to_us arrival = day now * 86400000000 + minute_of_day (arrival_time t) * 60000000"
    by (simp add: arrival_def to_us_def us_of_day_def minute_of_day_def)
  have ci: "closure_instants now t = Inr (start_instant now t, end_instant now t)"
    by (rule closure_instants_well_formed[OF assms])
  note se = arrival_shift_well_formed[OF assms, folded arrival_def]
  have s: "dt_add arrival (- 300000000) = Inr (start_instant now t)"
    using se(1) by (simp add: dt_sub_def)
  note e = se(2)
  show "to_us (start_instant now t)
       = day now * 86400000000 + minute_of_day (arrival_time t) * 60000000 - 5 * 60000000"
    using to_us_dt_add[OF s] ua by simp
  show "to_us (end_instant now t)
       = day now * 86400000000 + minute_of_day (arrival_time t) * 60000000
         + gate_closure_duration t * 60000000"
    using to_us_dt_add[OF e] ua by simp
  have "minute_of_day (arrival_time t) - 5 < 1440"
    using parse_arrival_well_formed(2-5)[OF assms(2)] by (simp add: minute_of_day_def)
  then have "(minute_of_day (arrival_time t) - 5) div 1440 \<le> 0"
    by simp
  moreover from assms(1) have "day now \<le> MAXORDINAL"
    by (simp add: valid_datetime_def)
  moreover define q where "q = day now + (minute_of_day (arrival_time t) - 5) div 1440"
  ultimately have q: "q \<le> MAXORDINAL" by simp
  from assms(3) have q0: "0 < q"
    unfolding in_calendar_def q_def by (rule conjunct1)
  define h m where "h = ((minute_of_day (arrival_time t) - 5) mod 1440) div 60"
    and "m = ((minute_of_day (arrival_time t) - 5) mod 1440) mod 60"
  have hm: "0 \<le> h" "h \<le> 23" "0 \<le> m" "m \<le> 59"
    unfolding h_def m_def by (rule mod_1440_range)+
  have "start_instant now t = \<lparr>day = q, hour = h, minute = m, second = 0, microsecond = 0\<rparr>"
    unfolding start_instant_def q_def h_def m_def ..
  with q q0 hm show "valid_datetime (start_instant now t)"
    by (simp add: valid_datetime_def)
  define q' where "q' = day now
      + (minute_of_day (arrival_time t) + gate_closure_duration t) div 1440"
  from assms(3) have q': "0 < q'" "q' \<le> MAXORDINAL"
    unfolding in_calendar_def q'_def by blast+
  define h' m' where "h' = ((minute_of_day (arrival_time t) + gate_closure_duration t) mod 1440) div 60"
    and "m' = ((minute_of_day (arrival_time t) + gate_closure_duration t) mod 1440) mod 60"
  have hm': "0 \<le> h'" "h' \<le> 23" "0 \<le> m'" "m' \<le> 59"
    unfolding h'_def m'_def by (rule mod_1440_range)+
  have "end_instant now t = \<lparr>day = q', hour = h', minute = m', second = 0, microsecond = 0\<rparr>"
    unfolding end_instant_def q'_def h'_def m'_def ..
  with q' hm' show "valid_datetime (end_instant now t)"
    by (simp add: valid_datetime_def)
  show "hour (start_instant now t) * 60 + minute (start_instant now t)
       = (minute_of_day (arrival_time t) - 5) mod 1440"
    by (simp add: start_instant_def)
  show "hour (end_instant now t) * 60 + minute (end_instant now t)
       = (minute_of_day (arrival_time t) + gate_closure_duration t) mod 1440"
    by (simp add: end_instant_def)
qed

lemma calculate_well_formed:
  assumes "valid_datetime now"
    and "\<forall>t\<in>set trains. well_formed_HHMM (arrival_time t) \<and> in_calendar now t"
  shows "calculate_gate_closure_schedule now trains
           = Inr (sort_key closure_start (map (window_of now) trains))"
proof -
  have "\<forall>t\<in>set trains. closure_entry now t = Inr (window_of now t)"
    using assms by (simp add: closure_entry_well_formed)
  then have "closure_loop now trains [] = Inr ([] @ map (window_of now) trains)"
    by (rule closure_loop_all_ok)
  then show ?thesis by (simp add: calculate_gate_closure_schedule_def)
qed

section \<open>Evaluation on the sample trains\<close>

lemma hhmm_eval:
  "well_formed_HHMM [a, b, CHR '':'', d, e] =
     (is_digit a \<and> is_digit b \<and> is_digit d \<and> is_digit e
      \<and> digit_val a * 10 + digit_val b \<le> 23 \<and> digit_val d * 10 + digit_val e \<le> 59)"
  "minute_of_day [a, b, c, d, e]
     = (digit_val a * 10 + digit_val b) * 60 + (digit_val d * 10 + digit_val e)"
  by (simp_all add: well_formed_HHMM_def minute_of_day_def hhmm_hour_def hhmm_minute_def)

lemma digit_eval:
  "is_digit CHR ''0''" "is_digit CHR ''1''" "is_digit CHR ''2''" "is_digit CHR ''3''"
  "is_digit CHR ''4''" "is_digit CHR ''5''" "is_digit CHR ''6''" "is_digit CHR ''7''"
  "is_digit CHR ''8''" "is_digit CHR ''9''"
  "digit_val CHR ''0'' = 0" "digit_val CHR ''1'' = 1" "digit_val CHR ''2'' = 2"
  "digit_val CHR ''3'' = 3" "digit_val CHR ''4'' = 4" "digit_val CHR ''5'' = 5"
  "digit_val CHR ''6'' = 6" "digit_val CHR ''7'' = 7" "digit_val CHR ''8'' = 8"
  "digit_val CHR ''9'' = 9"
  by (simp_all add: is_digit_def digit_val_def)

lemma sample_facts:
  "well_formed_HHMM (arrival_time exp_12345)" "minute_of_day (arrival_time exp_12345) = 870"
  "well_formed_HHMM (arrival_time loc_67890)" "minute_of_day (arrival_time loc_67890) = 885"
  "well_formed_HHMM (arrival_time frt_11111)" "minute_of_day (arrival_time frt_11111) = 915"
  "well_formed_HHMM (arrival_time exp_22222)" "minute_of_day (arrival_time exp_22222) = 945"
  "well_formed_HHMM (arrival_time psg_33333)" "minute_of_day (arrival_time psg_33333) = 980"
  by (simp_all add: exp_12345_def loc_67890_def frt_11111_def exp_22222_def psg_33333_def
      hhmm_eval digit_eval)

lemma example_now_valid: "valid_datetime example_now"
  by (simp add: valid_datetime_def example_now_def MAXORDINAL_def)

lemma exp_12345_in_calendar:
  assumes "valid_datetime now"
  shows "in_calendar now exp_12345"
proof -
  have g: "gate_closure_duration exp_12345 = 8" by (simp add: exp_12345_def)
  from assms have "1 \<le> day now" "day now \<le> MAXORDINAL"
    by (simp_all add: valid_datetime_def)
  then show ?thesis
    unfolding in_calendar_def sample_facts g by simp
qed

lemma exp_12345_window:
  "window_of now exp_12345
      = \<lparr>c_train_number = ''EXP-12345'', closure_start = ''14:25'',
                   closure_end = ''14:38'', duration_minutes = 13,
                   c_priority = ''high'', c_platform = ''3''\<rparr>"
proof -
  have g: "gate_closure_duration exp_12345 = 8" "train_number exp_12345 = ''EXP-12345''"
    "priority exp_12345 = ''high''" "platform exp_12345 = ''3''"
    by (simp_all add: exp_12345_def)
  have s: "strftime_HM (start_instant now exp_12345) = ''14:25''"
    unfolding start_instant_def sample_facts
    by (simp add: strftime_HM_def two_digits_def digit_char_def)
  have e: "strftime_HM (end_instant now exp_12345) = ''14:38''"
    unfolding end_instant_def sample_facts g
    by (simp add: strftime_HM_def two_digits_def digit_char_def)
  show ?thesis
    unfolding window_of_def s e g by simp
qed

lemma window_of_record:
  assumes "valid_datetime now" "well_formed_HHMM (arrival_time t)" "in_calendar now t"
  shows "\<exists>arrival cs ce.
            arrival_datetime now t = Inr arrival
          \<and> to_us arrival = day now * 86400000000 + minute_of_day (arrival_time t) * 60000000
          \<and> closure_instants now t = Inr (cs, ce)
          \<and> to_us cs = to_us arrival - 5 * 60000000
          \<and> to_us ce = to_us arrival + gate_closure_duration t * 60000000
          \<and> hour cs * 60 + minute cs = (minute_of_day (arrival_time t) - 5) mod 1440
          \<and> hour ce * 60 + minute ce
              = (minute_of_day (arrival_time t) + gate_closure_duration t) mod 1440
          \<and> window_of now t = \<lparr>c_train_number = train_number t,
              closure_start = strftime_HM cs,
              closure_end = strftime_HM ce,
              duration_minutes = gate_closure_duration t + 5,
              c_priority = priority t,
              c_platform = platform t\<rparr>"
proof -
  define arrival where "arrival = now\<lparr>hour := hhmm_hour (arrival_time t),
      minute := hhmm_minute (arrival_time t), second := 0, microsecond := 0\<rparr>"
  have arr: "arrival_datetime now t = Inr arrival"
    unfolding arrival_def by (rule arrival_datetime_well_formed[OF assms(2)])
  have ua: "to_us arrival = day now * 86400000000 + minute_of_day (arrival_time t) * 60000000"
    by (simp add: arrival_def to_us_def us_of_day_def minute_of_day_def)
  note se = start_end_instants[OF assms]
  have s: "to_us (start_instant now t) = to_us arrival - 5 * 60000000"
    unfolding se(3) ua by simp
  have e: "to_us (end_instant now t) = to_us arrival + gate_closure_duration t * 60000000"
    unfolding se(4) ua by simp
  have w: "window_of now t = \<lparr>c_train_number = train_number t,
              closure_start = strftime_HM (start_instant now t),
              closure_end = strftime_HM (end_instant now t),
              duration_minutes = gate_closure_duration t + 5,
              c_priority = priority t,
              c_platform = platform t\<rparr>"
    by (rule window_of_def)
  from arr ua closure_instants_well_formed[OF assms] s e se(5) se(6) w
  show ?thesis by blast
qed

lemma sample_in_calendar:
  "in_calendar example_now exp_12345" "in_calendar example_now loc_67890"
  "in_calendar example_now frt_11111" "in_calendar example_now exp_22222"
  "in_calendar example_now psg_33333"
proof -
  have g: "gate_closure_duration exp_12345 = 8" "gate_closure_duration loc_67890 = 8"
    "gate_closure_duration frt_11111 = 12" "gate_closure_duration exp_22222 = 8"
    "gate_closure_duration psg_33333 = 8" "day example_now = 739923"
    by (simp_all add: exp_12345_def loc_67890_def frt_11111_def exp_22222_def psg_33333_def
        example_now_def)
  show "in_calendar example_now exp_12345" "in_calendar example_now loc_67890"
  "in_calendar example_now frt_11111" "in_calendar example_now exp_22222"
  "in_calendar example_now psg_33333"
    unfolding in_calendar_def sample_facts g MAXORDINAL_def by simp_all
qed

lemma sample_windows:
  "window_of now loc_67890
      = \<lparr>c_train_number = ''LOC-67890'', closure_start = ''14:40'',
         closure_end = ''14:53'', duration_minutes = 13,
         c_priority = ''normal'', c_platform = ''1''\<rparr>"
  "window_of now frt_11111
      = \<lparr>c_train_number = ''FRT-11111'', closure_start = ''15:10'',
         closure_end = ''15:27'', duration_minutes = 17,
         c_priority = ''low'', c_platform = ''2''\<rparr>"
  "window_of now exp_22222
      = \<lparr>c_train_number = ''EXP-22222'', closure_start = ''15:40'',
         closure_end = ''15:53'', duration_minutes = 13,
         c_priority = ''high'', c_platform = ''4''\<rparr>"
  "window_of now psg_33333
      = \<lparr>c_train_number = ''PSG-33333'', closure_start = ''16:15'',
         closure_end = ''16:28'', duration_minutes = 13,
         c_priority = ''normal'', c_platform = ''1''\<rparr>"
proof -
  have g: "gate_closure_duration loc_67890 = 8" "train_number loc_67890 = ''LOC-67890''"
    "priority loc_67890 = ''normal''" "platform loc_67890 = ''1''"
    "gate_closure_duration frt_11111 = 12" "train_number frt_11111 = ''FRT-11111''"
    "priority frt_11111 = ''low''" "platform frt_11111 = ''2''"
    "gate_closure_duration exp_22222 = 8" "train_number exp_22222 = ''EXP-22222''"
    "priority exp_22222 = ''high''" "platform exp_22222 = ''4''"
    "gate_closure_duration psg_33333 = 8" "train_number psg_33333 = ''PSG-33333''"
    "priority psg_33333 = ''normal''" "platform psg_33333 = ''1''"
    by (simp_all add: loc_67890_def frt_11111_def exp_22222_def psg_33333_def)
  show "window_of now loc_67890
      = \<lparr>c_train_number = ''LOC-67890'', closure_start = ''14:40'',
         closure_end = ''14:53'', duration_minutes = 13,
         c_priority = ''normal'', c_platform = ''1''\<rparr>"
  "window_of now frt_11111
      = \<lparr>c_train_number = ''FRT-11111'', closure_start = ''15:10'',
         closure_end = ''15:27'', duration_minutes = 17,
         c_priority = ''low'', c_platform = ''2''\<rparr>"
  "window_of now exp_22222
      = \<lparr>c_train_number = ''EXP-22222'', closure_start = ''15:40'',
         closure_end = ''15:53'', duration_minutes = 13,
         c_priority = ''high'', c_platform = ''4''\<rparr>"
  "window_of now psg_33333
      = \<lparr>c_train_number = ''PSG-33333'', closure_start = ''16:15'',
         closure_end = ''16:28'', duration_minutes = 13,
         c_priority = ''normal'', c_platform = ''1''\<rparr>"
    unfolding window_of_def start_instant_def end_instant_def sample_facts g
    by (simp_all add: strftime_HM_def two_digits_def digit_char_def)
qed

lemma sample_all_ok:
  "\<forall>t\<in>set sample_trains. well_formed_HHMM (arrival_time t) \<and> in_calendar example_now t"
  by (simp add: sample_trains_def sample_facts sample_in_calendar)

lemma rev_sample_all_ok:
  "\<forall>t\<in>set (rev sample_trains). well_formed_HHMM (arrival_time t) \<and> in_calendar example_now t"
  by (simp add: sample_trains_def sample_facts sample_in_calendar)

lemma rev_sample_schedule:
  "calculate_gate_closure_schedule example_now (rev sample_trains)
     = Inr [window_of example_now exp_12345, window_of example_now loc_67890,
            window_of example_now frt_11111, window_of example_now exp_22222,
            window_of example_now psg_33333]"
  unfolding calculate_well_formed[OF example_now_valid rev_sample_all_ok]
  by (simp add: sample_trains_def exp_12345_window sample_windows)

lemma exp_12345_instants:
  "arrival_datetime example_now exp_12345
     = Inr \<lparr>day = 739923, hour = 14, minute = 30, second = 0, microsecond = 0\<rparr>"
  "closure_instants example_now exp_12345
     = Inr (\<lparr>day = 739923, hour = 14, minute = 25, second = 0, microsecond = 0\<rparr>,
            \<lparr>day = 739923, hour = 14, minute = 38, second = 0, microsecond = 0\<rparr>)"
proof -
  have hm: "hhmm_hour (arrival_time exp_12345) = 14" "hhmm_minute (arrival_time exp_12345) = 30"
    by (simp_all add: exp_12345_def hhmm_hour_def hhmm_minute_def digit_eval)
  show "arrival_datetime example_now exp_12345
     = Inr \<lparr>day = 739923, hour = 14, minute = 30, second = 0, microsecond = 0\<rparr>"
    unfolding arrival_datetime_well_formed[OF sample_facts(1)] hm
    by (simp add: example_now_def)
  have g: "gate_closure_duration exp_12345 = 8" by (simp add: exp_12345_def)
  show "closure_instants example_now exp_12345
     = Inr (\<lparr>day = 739923, hour = 14, minute = 25, second = 0, microsecond = 0\<rparr>,
            \<lparr>day = 739923, hour = 14, minute = 38, second = 0, microsecond = 0\<rparr>)"
    unfolding closure_instants_well_formed[OF example_now_valid sample_facts(1)
        sample_in_calendar(1)] start_instant_def end_instant_def sample_facts g
    by (simp add: example_now_def)
qed




section \<open>Lemmas on the wait-time predictor\<close>

lemma digits_value_range:
  assumes "list_all is_digit f" "length f = 1 \<or> length f = 2"
  shows "0 \<le> digits_value f" "digits_value f \<le> 99"
proof -
  from assms(2) consider a where "f = [a]" | a b where "f = [a, b]"
    by (cases f; cases "tl f"; cases "tl (tl f)") auto
  then have "0 \<le> digits_value f \<and> digits_value f \<le> 99"
  proof cases
    case 1
    with assms(1) digit_val_range[of a] show ?thesis by (simp add: digits_value_def)
  next
    case 2
    with assms(1) digit_val_range[of a] digit_val_range[of b] show ?thesis
      by (simp add: digits_value_def)
  qed
  then show "0 \<le> digits_value f" "digits_value f \<le> 99" by simp_all
qed

lemma strptime_range:
  assumes "strptime_HM s = Inr (h, m)"
  shows "0 \<le> h" "h \<le> 23" "0 \<le> m" "m \<le> 59"
proof -
  from assms obtain a b where ab: "valid_field 23 a" "valid_field 59 b"
    "h = digits_value a" "m = digits_value b"
    by (auto simp: strptime_HM_def split: list.splits if_splits)
  have a: "0 \<le> digits_value a" "digits_value a \<le> 99"
    using ab(1) by (auto simp: valid_field_def intro: digits_value_range)
  have a9: "length a = 1 \<Longrightarrow> digits_value a \<le> 9"
    using ab(1) digit_val_range[of "hd a"]
    by (cases a) (auto simp: valid_field_def digits_value_def)
  have b: "0 \<le> digits_value b" "digits_value b \<le> 99"
    using ab(2) by (auto simp: valid_field_def intro: digits_value_range)
  have b9: "length b = 1 \<Longrightarrow> digits_value b \<le> 9"
    using ab(2) digit_val_range[of "hd b"]
    by (cases b) (auto simp: valid_field_def digits_value_def)
  show "0 \<le> h" "0 \<le> m" using a b ab by simp_all
  show "h \<le> 23" using ab(1,3) a9 by (auto simp: valid_field_def)
  show "m \<le> 59" using ab(2,4) b9 by (auto simp: valid_field_def)
qed

lemma closure_start_on_valid:
  assumes "valid_datetime now"
  shows "valid_datetime (closure_start_on now c)"
proof (cases "strptime_HM (closure_start c)")
  case (Inl e)
  with assms show ?thesis by (simp add: closure_start_on_def)
next
  case (Inr hm)
  obtain h m where hm: "hm = (h, m)" by (cases hm)
  from strptime_range[OF Inr[unfolded hm]] assms Inr hm show ?thesis
    by (simp add: closure_start_on_def valid_datetime_def)
qed

lemma wait_loop_step:
  assumes "valid_datetime now" "strptime_HM (closure_start c) = Inr (h, m)"
  shows "wait_loop now (c # cs) preds = wait_loop now cs (wait_step now preds c)"
proof -
  have r: "replace_hm now h m = Inr (closure_start_on now c)"
    using strptime_range[OF assms(2)] assms(2)
    by (simp add: replace_hm_def closure_start_on_def fits_c_int_def)
  have l: "dt_less now (closure_start_on now c) = (to_us now < to_us (closure_start_on now c))"
    by (rule dt_less_to_us[OF assms(1) closure_start_on_valid[OF assms(1)]])
  show ?thesis
  proof (cases "to_us now < to_us (closure_start_on now c)")
    case True
    then have "minutes_of_delta (dt_diff (closure_start_on now c) now)
        = (to_us (closure_start_on now c) - to_us now) div 60000000"
      by (simp add: minutes_of_delta_def dt_diff_def)
    with True show ?thesis
      by (simp add: assms(2) r l wait_step_def prediction_of_def Let_def)
  next
    case False
    then show ?thesis
      by (simp add: assms(2) r l wait_step_def)
  qed
qed

lemma wait_loop_foldl:
  assumes "valid_datetime now" "\<forall>c\<in>set cs. \<exists>h m. strptime_HM (closure_start c) = Inr (h, m)"
  shows "wait_loop now cs preds = Inr (foldl (wait_step now) preds cs)"
  using assms(2)
proof (induction cs arbitrary: preds)
  case Nil
  then show ?case by simp
next
  case (Cons c cs)
  then obtain h m where p: "strptime_HM (closure_start c) = Inr (h, m)" by auto
  from Cons have "wait_loop now cs (wait_step now preds c)
      = Inr (foldl (wait_step now) (wait_step now preds c) cs)"
    by simp
  then show ?case
    unfolding wait_loop_step[OF assms(1) p] by simp
qed

lemma foldl_wait_dom:
  "dom (foldl (wait_step now) preds cs)
     = dom preds \<union> {c_train_number c | c. c \<in> set cs \<and> to_us now < to_us (closure_start_on now c)}"
  by (induction cs arbitrary: preds) (auto simp: wait_step_def)

lemma foldl_wait_other:
  "k \<notin> c_train_number ` set cs \<Longrightarrow> foldl (wait_step now) preds cs k = preds k"
  by (induction cs arbitrary: preds) (auto simp: wait_step_def)

lemma foldl_wait_source:
  "foldl (wait_step now) preds cs k = Some p \<Longrightarrow>
     preds k = Some p \<or> (\<exists>c\<in>set cs. c_train_number c = k
        \<and> to_us now < to_us (closure_start_on now c) \<and> p = prediction_of now c)"
proof (induction cs arbitrary: preds)
  case Nil
  then show ?case by simp
next
  case (Cons c cs)
  from Cons.IH[of "wait_step now preds c"] Cons.prems
  have "wait_step now preds c k = Some p \<or> (\<exists>c\<in>set cs. c_train_number c = k
        \<and> to_us now < to_us (closure_start_on now c) \<and> p = prediction_of now c)"
    by simp
  then show ?case
    by (auto simp: wait_step_def split: if_splits)
qed

lemma foldl_wait_distinct:
  assumes "distinct (map c_train_number cs)" "c \<in> set cs"
    "to_us now < to_us (closure_start_on now c)"
  shows "foldl (wait_step now) preds cs (c_train_number c) = Some (prediction_of now c)"
  using assms(1,2)
proof (induction cs arbitrary: preds)
  case Nil
  then show ?case by simp
next
  case (Cons x xs)
  show ?case
  proof (cases "c = x")
    case True
    with Cons.prems have "c_train_number c \<notin> c_train_number ` set xs" by simp
    then have "foldl (wait_step now) (wait_step now preds x) xs (c_train_number c)
        = wait_step now preds x (c_train_number c)"
      by (rule foldl_wait_other)
    moreover have "wait_step now preds x (c_train_number c) = Some (prediction_of now c)"
      using True assms(3) by (simp add: wait_step_def)
    ultimately show ?thesis using True by simp
  next
    case False
    with Cons show ?thesis by simp
  qed
qed

lemma closure_entry_start_parses:
  assumes "closure_entry now t = Inr c"
  shows "\<exists>h m. strptime_HM (closure_start c) = Inr (h, m)"
proof -
  from assms obtain cstart cend where i: "closure_instants now t = Inr (cstart, cend)"
    and c: "closure_start c = strftime_HM cstart"
    by (auto simp: closure_entry_def split: sum.splits prod.splits)
  from i obtain arrival where a: "arrival_datetime now t = Inr arrival"
    unfolding closure_instants_def by (cases "arrival_datetime now t") auto
  from i obtain five where f: "timedelta_minutes 5 = Inr five"
    unfolding closure_instants_def a by (cases "timedelta_minutes 5") auto
  from i have "dt_sub arrival five = Inr cstart"
    unfolding closure_instants_def a f
    by (cases "dt_sub arrival five") (auto split: sum.splits)
  then have "dt_add arrival (- five) = Inr cstart" by (simp add: dt_sub_def)
  from dt_add_fields[OF this] have "strptime_HM (strftime_HM cstart) = Inr (hour cstart, minute cstart)"
    by (rule strptime_strftime)
  with c show ?thesis by auto
qed

lemma closure_loop_set:
  "closure_loop now ts acc = Inr cs \<Longrightarrow>
     \<forall>c\<in>set cs. c \<in> set acc \<or> (\<exists>t\<in>set ts. closure_entry now t = Inr c)"
proof (induction ts arbitrary: acc)
  case Nil
  then show ?case by simp
next
  case (Cons t ts)
  then obtain c where c: "closure_entry now t = Inr c"
    and l: "closure_loop now ts (acc @ [c]) = Inr cs"
    by (auto split: sum.splits)
  from Cons.IH[OF l] c show ?case by auto
qed

lemma schedule_parses:
  assumes "calculate_gate_closure_schedule now trains = Inr sched"
  shows "\<forall>c\<in>set sched. \<exists>h m. strptime_HM (closure_start c) = Inr (h, m)"
proof -
  from assms obtain cs where l: "closure_loop now trains [] = Inr cs"
    and s: "sched = sort_key closure_start cs"
    by (auto simp: calculate_gate_closure_schedule_def split: sum.splits)
  from closure_loop_set[OF l] have "\<forall>c\<in>set cs. \<exists>t\<in>set trains. closure_entry now t = Inr c"
    by simp
  then have "\<forall>c\<in>set cs. \<exists>h m. strptime_HM (closure_start c) = Inr (h, m)"
    using closure_entry_start_parses by blast
  then show ?thesis by (simp add: s)
qed

lemma predict_foldl:
  assumes "valid_datetime now" "calculate_gate_closure_schedule now trains = Inr sched"
  shows "predict_wait_times now trains = Inr (foldl (wait_step now) Map.empty sched)"
  unfolding predict_wait_times_def assms(2)
  using wait_loop_foldl[OF assms(1) schedule_parses[OF assms(2)]] by simp

lemma example_later_valid: "valid_datetime example_later"
  by (simp add: valid_datetime_def example_later_def MAXORDINAL_def)

lemma sample_in_calendar_any:
  assumes "valid_datetime now"
  shows "\<forall>t\<in>set sample_trains. well_formed_HHMM (arrival_time t) \<and> in_calendar now t"
proof -
  have g: "gate_closure_duration exp_12345 = 8" "gate_closure_duration loc_67890 = 8"
    "gate_closure_duration frt_11111 = 12" "gate_closure_duration exp_22222 = 8"
    "gate_closure_duration psg_33333 = 8"
    by (simp_all add: exp_12345_def loc_67890_def frt_11111_def exp_22222_def psg_33333_def)
  from assms have d: "1 \<le> day now" "day now \<le> MAXORDINAL"
    by (simp_all add: valid_datetime_def)
  have "in_calendar now exp_12345" "in_calendar now loc_67890"
    "in_calendar now frt_11111" "in_calendar now exp_22222" "in_calendar now psg_33333"
    unfolding in_calendar_def sample_facts g using d by simp_all
  then show ?thesis by (simp add: sample_trains_def sample_facts)
qed

lemma sample_schedule:
  assumes "valid_datetime now"
  shows "calculate_gate_closure_schedule now sample_trains
     = Inr [window_of now exp_12345, window_of now loc_67890, window_of now frt_11111,
            window_of now exp_22222, window_of now psg_33333]"
  unfolding calculate_well_formed[OF assms sample_in_calendar_any[OF assms]]
  by (simp add: sample_trains_def exp_12345_window sample_windows)

lemma strptime_samples:
  "strptime_HM ''14:25'' = Inr (14, 25)" "strptime_HM ''14:40'' = Inr (14, 40)"
  "strptime_HM ''15:10'' = Inr (15, 10)" "strptime_HM ''15:40'' = Inr (15, 40)"
  "strptime_HM ''16:15'' = Inr (16, 15)"
  by (simp_all add: strptime_HM_def valid_field_def digits_value_def digit_eval)

lemma sample_starts_on:
  "closure_start_on now (window_of now' exp_12345)
     = now\<lparr>hour := 14, minute := 25, second := 0, microsecond := 0\<rparr>"
  "closure_start_on now (window_of now' loc_67890)
     = now\<lparr>hour := 14, minute := 40, second := 0, microsecond := 0\<rparr>"
  "closure_start_on now (window_of now' frt_11111)
     = now\<lparr>hour := 15, minute := 10, second := 0, microsecond := 0\<rparr>"
  "closure_start_on now (window_of now' exp_22222)
     = now\<lparr>hour := 15, minute := 40, second := 0, microsecond := 0\<rparr>"
  "closure_start_on now (window_of now' psg_33333)
     = now\<lparr>hour := 16, minute := 15, second := 0, microsecond := 0\<rparr>"
  unfolding exp_12345_window sample_windows closure_start_on_def
  by (simp_all add: strptime_samples)

lemma sample_numbers:
  "c_train_number (window_of now exp_12345) = ''EXP-12345''"
  "c_train_number (window_of now loc_67890) = ''LOC-67890''"
  "c_train_number (window_of now frt_11111) = ''FRT-11111''"
  "c_train_number (window_of now exp_22222) = ''EXP-22222''"
  "c_train_number (window_of now psg_33333) = ''PSG-33333''"
  unfolding exp_12345_window sample_windows by simp_all

lemma later_gaps:
  "to_us (example_later\<lparr>hour := 14, minute := 25, second := 0, microsecond := 0\<rparr>)
     - to_us example_later = - 900000000"
  "to_us (example_later\<lparr>hour := 14, minute := 40, second := 0, microsecond := 0\<rparr>)
     - to_us example_later = 0"
  "to_us (example_later\<lparr>hour := 15, minute := 10, second := 0, microsecond := 0\<rparr>)
     - to_us example_later = 1800000000"
  "to_us (example_later\<lparr>hour := 15, minute := 40, second := 0, microsecond := 0\<rparr>)
     - to_us example_later = 3600000000"
  "to_us (example_later\<lparr>hour := 16, minute := 15, second := 0, microsecond := 0\<rparr>)
     - to_us example_later = 5700000000"
  by (simp_all add: to_us_def us_of_day_def example_later_def)

lemma collect_as_filter:
  "{f c | c. c \<in> set xs \<and> P c} = f ` set (filter P xs)"
  by auto

lemma less_gap: "(a < b) = (0 < b - (a::int))"
  by simp

section \<open>Lemmas on the alert generator\<close>









section \<open>Lemmas on the route ranker\<close>

lemma adjust_loop_other:
  "r \<notin> set rs \<Longrightarrow> adjust_loop int_mul one env i rs st r = st r"
  by (induction rs arbitrary: i st) simp_all


lemma clear_loop_eq:
  "clear_loop rs st r = (if r \<in> set rs then (st r)\<lparr>recommended := False\<rparr> else st r)"
  by (induction rs arbitrary: st) auto




lemma optimize_routes_unfold:
  fixes int_mul :: "int \<Rightarrow> 'f \<Rightarrow> int" and one :: 'f and env :: "nat \<Rightarrow> 'f sample"
    and st :: "'f store"
  assumes "refs \<noteq> []"
  defines "st1 \<equiv> adjust_loop int_mul one env 0 refs st"
  defines "res \<equiv> sort_key (\<lambda>r. additional_time_minutes (st1 r)) refs"
  shows "optimize_routes int_mul one env st refs
     = ((clear_loop res st1)(hd res := (clear_loop res st1 (hd res))\<lparr>recommended := True\<rparr>), res)"
proof -
  from assms(1) have "res \<noteq> []"
    unfolding res_def by (metis length_sort length_0_conv)
  then obtain r rs where r: "res = r # rs" by (cases res) auto
  show ?thesis
    unfolding optimize_routes_def Let_def st1_def[symmetric] res_def[symmetric]
    by (simp add: r)
qed

lemma optimize_routes_fields:
  assumes "refs \<noteq> []"
    and "optimize_routes int_mul one env st refs = (st', res)"
  defines "st1 \<equiv> adjust_loop int_mul one env 0 refs st"
  shows "res = sort_key (\<lambda>r. additional_time_minutes (st1 r)) refs"
    and "additional_time_minutes (st' r) = additional_time_minutes (st1 r)"
    and "traffic_level (st' r) = traffic_level (st1 r)"
    and "r \<in> set res \<Longrightarrow> recommended (st' r) = (r = hd res)"
    and "r \<notin> set res \<Longrightarrow> st' r = st r"
proof -
  note u = optimize_routes_unfold[OF assms(1), of int_mul one env st, folded st1_def]
  from u assms(2) show res: "res = sort_key (\<lambda>r. additional_time_minutes (st1 r)) refs"
    by simp
  from u assms(2) res
  have st': "st' = (clear_loop res st1)(hd res := (clear_loop res st1 (hd res))\<lparr>recommended := True\<rparr>)"
    by simp
  show "additional_time_minutes (st' r) = additional_time_minutes (st1 r)"
    unfolding st' by (simp add: clear_loop_eq)
  show "traffic_level (st' r) = traffic_level (st1 r)"
    unfolding st' by (simp add: clear_loop_eq)
  show "r \<in> set res \<Longrightarrow> recommended (st' r) = (r = hd res)"
    unfolding st' by (simp add: clear_loop_eq)
  assume n: "r \<notin> set res"
  from assms(1) have "res \<noteq> []" unfolding res by (metis length_sort length_0_conv)
  with n have "r \<noteq> hd res" by auto
  moreover from n have "r \<notin> set refs" unfolding res by simp
  ultimately show "st' r = st r"
    unfolding st' using n by (simp add: clear_loop_eq st1_def adjust_loop_other)
qed

section \<open>Evaluation on the sample routes\<close>

lemma exact_int_mul_values:
  "exact_int_mul 15 (5 / 4) = 18" "exact_int_mul 12 (3 / 2) = 18"
  "exact_int_mul 18 1 = 18" "exact_int_mul 8 1 = 8"
  "exact_int_mul 18 (3 / 2) = 27" "exact_int_mul 18 (5 / 4) = 22"
  "exact_int_mul 8 (5 / 4) = 10"
  by (simp_all add: exact_int_mul_def floor_eq_iff)

lemma first_adjust:
  "adjust_loop exact_int_mul 1 rush_env 0 alternative_routes initial_store = after_first"
  unfolding alternative_routes_def
  by (rule ext)
     (simp add: initial_store_def after_first_def adjust_route_def traffic_multiplier_def
       rush_env_def r001_def r002_def r003_def r004_def exact_int_mul_values Let_def)

lemma after_first_times:
  "additional_time_minutes (after_first 0) = 18" "additional_time_minutes (after_first 1) = 18"
  "additional_time_minutes (after_first 2) = 18" "additional_time_minutes (after_first 3) = 8"
  "additional_time_minutes (after_first (Suc 0)) = 18"
  by (simp_all add: after_first_def initial_store_def r001_def r002_def r003_def r004_def)

lemma first_sort:
  "sort_key (\<lambda>r. additional_time_minutes (after_first r)) alternative_routes = [3, 0, 1, 2]"
  by (simp add: alternative_routes_def after_first_times)

lemma first_call:
  "optimize_routes exact_int_mul 1 rush_env initial_store alternative_routes
     = (after_first(0 := (after_first 0)\<lparr>recommended := False\<rparr>,
                    1 := (after_first 1)\<lparr>recommended := False\<rparr>,
                    2 := (after_first 2)\<lparr>recommended := False\<rparr>,
                    3 := (after_first 3)\<lparr>recommended := True\<rparr>), [3, 0, 1, 2])"
  unfolding optimize_routes_def Let_def first_adjust first_sort
  by (simp add: fun_eq_iff)

lemma first_store_eq:
  "first_store = after_first(0 := (after_first 0)\<lparr>recommended := False\<rparr>,
                    1 := (after_first 1)\<lparr>recommended := False\<rparr>,
                    2 := (after_first 2)\<lparr>recommended := False\<rparr>,
                    3 := (after_first 3)\<lparr>recommended := True\<rparr>)"
  unfolding first_store_def first_call by simp


lemma initial_fields:
  "map (\<lambda>r. (additional_time_minutes (initial_store r), traffic_level (initial_store r),
              recommended (initial_store r))) alternative_routes
     = [(15, ''medium'', False), (12, ''high'', False), (18, ''low'', False), (8, ''low'', True)]"
  by (simp add: alternative_routes_def initial_store_def r001_def r002_def r003_def r004_def)

lemma first_fields:
  "map (\<lambda>r. (additional_time_minutes (first_store r), traffic_level (first_store r),
              recommended (first_store r))) alternative_routes
     = [(18, ''high'', False), (18, ''high'', False), (18, ''medium'', False),
        (8, ''medium'', True)]"
  by (simp add: alternative_routes_def first_store_eq after_first_def initial_store_def
      r001_def r002_def r003_def r004_def)

lemma second_adjust_times:
  "map (\<lambda>r. additional_time_minutes
              (adjust_loop exact_int_mul 1 rush_env 0 alternative_routes first_store r))
     alternative_routes = [27, 27, 22, 10]"
  by (simp add: alternative_routes_def first_store_eq after_first_def initial_store_def
      r001_def r002_def r003_def r004_def adjust_route_def traffic_multiplier_def rush_env_def
      exact_int_mul_values Let_def)

lemma second_times:
  "map (\<lambda>r. additional_time_minutes
              (fst (optimize_routes exact_int_mul 1 rush_env first_store alternative_routes) r))
     alternative_routes = [27, 27, 22, 10]"
proof -
  have ne: "alternative_routes \<noteq> []" by (simp add: alternative_routes_def)
  have "additional_time_minutes
          (fst (optimize_routes exact_int_mul 1 rush_env first_store alternative_routes) r)
      = additional_time_minutes
          (adjust_loop exact_int_mul 1 rush_env 0 alternative_routes first_store r)" for r
    by (rule optimize_routes_fields(2)[OF ne]) (rule prod.collapse[symmetric])
  then show ?thesis by (simp only: second_adjust_times)
qed

section \<open>Theorems\<close>

text \<open>
  C4. The recommended action depends on (minutes until closure, duration) only and is
  decided by the first matching threshold: STOP exactly when at most 2 minutes remain,
  CAUTION exactly when more than 2 and at most 5 remain, PLAN exactly when more than 5
  remain and the closure lasts more than 10 minutes, PROCEED exactly in the remaining
  case; every pair gets one of the four; and the four sample pairs give the four
  actions.
\<close>

theorem wait_recommendation_chain:
  "(get_wait_recommendation m d = ''STOP - Gate closing very soon'') = (m \<le> 2)
   \<and> (get_wait_recommendation m d = ''CAUTION - Consider alternative route'')
        = (2 < m \<and> m \<le> 5)
   \<and> (get_wait_recommendation m d = ''PLAN - Long closure expected, use alternative route'')
        = (5 < m \<and> 10 < d)
   \<and> (get_wait_recommendation m d = ''PROCEED - Sufficient time to cross'')
        = (5 < m \<and> d \<le> 10)
   \<and> get_wait_recommendation m d \<in> {''STOP - Gate closing very soon'',
        ''CAUTION - Consider alternative route'',
        ''PLAN - Long closure expected, use alternative route'',
        ''PROCEED - Sufficient time to cross''}
   \<and> get_wait_recommendation 2 20 = ''STOP - Gate closing very soon''
   \<and> get_wait_recommendation 4 20 = ''CAUTION - Consider alternative route''
   \<and> get_wait_recommendation 8 15 = ''PLAN - Long closure expected, use alternative route''
   \<and> get_wait_recommendation 8 5 = ''PROCEED - Sufficient time to cross''"
  by (simp add: get_wait_recommendation_def)

text \<open>
  C9. Traffic intensity is defined for every integer hour: high exactly for 7..9 and
  17..19, medium exactly for 10..16 and 20..21 (hour 19 is high, the first condition
  winning), low for every other hour. Hour 24, which the summarizer passes as the next
  hour at 23 o'clock, is low. Hours 8, 12 and 2 are high, medium and low.
\<close>

theorem traffic_intensity_bands:
  "(get_traffic_intensity h = ''high'') = (h \<in> {7, 8, 9} \<union> {17, 18, 19})
   \<and> (get_traffic_intensity h = ''medium'') = (h \<in> {10..16} \<union> {20, 21})
   \<and> (get_traffic_intensity h = ''low'') = (h \<notin> {7..21})
   \<and> get_traffic_intensity 19 = ''high''
   \<and> get_traffic_intensity 24 = ''low''
   \<and> next_hour_traffic (analyze_traffic_patterns 23) = ''low''
   \<and> get_traffic_intensity 8 = ''high''
   \<and> get_traffic_intensity 12 = ''medium''
   \<and> get_traffic_intensity 2 = ''low''"
  by (auto simp: get_traffic_intensity_def analyze_traffic_patterns_def)

text \<open>
  C1. For a valid current date, every train record whose arrival time is a well-formed
  "HH:MM" string, and whose closure instants lie within the calendar, gets a window in
  the computed schedule: its closure start is the rendering of the instant 5 minutes
  before the arrival instant, its closure end the rendering of the instant
  \<open>gate_closure_duration\<close> minutes after it, and its duration is
  \<open>gate_closure_duration + 5\<close>. The train EXP-12345, arriving 14:30 with a closure
  duration of 8, gets 14:25, 14:38 and 13.
\<close>

theorem closure_window_values:
  assumes "valid_datetime now"
    and "\<forall>t\<in>set trains. well_formed_HHMM (arrival_time t) \<and> in_calendar now t"
  shows "(\<exists>sched. calculate_gate_closure_schedule now trains = Inr sched
            \<and> length sched = length trains
            \<and> (\<forall>t\<in>set trains. \<exists>arrival cs ce.
                  arrival_datetime now t = Inr arrival
                \<and> to_us arrival
                    = day now * 86400000000 + minute_of_day (arrival_time t) * 60000000
                \<and> closure_instants now t = Inr (cs, ce)
                \<and> to_us cs = to_us arrival - 5 * 60000000
                \<and> to_us ce = to_us arrival + gate_closure_duration t * 60000000
                \<and> hour cs * 60 + minute cs = (minute_of_day (arrival_time t) - 5) mod 1440
                \<and> hour ce * 60 + minute ce
                    = (minute_of_day (arrival_time t) + gate_closure_duration t) mod 1440
                \<and> \<lparr>c_train_number = train_number t,
                    closure_start = strftime_HM cs,
                    closure_end = strftime_HM ce,
                    duration_minutes = gate_closure_duration t + 5,
                    c_priority = priority t,
                    c_platform = platform t\<rparr> \<in> set sched))
       \<and> calculate_gate_closure_schedule now [exp_12345]
           = Inr [\<lparr>c_train_number = ''EXP-12345'', closure_start = ''14:25'',
                   closure_end = ''14:38'', duration_minutes = 13,
                   c_priority = ''high'', c_platform = ''3''\<rparr>]"
proof (rule conjI)
  let ?sched = "sort_key closure_start (map (window_of now) trains)"
  have c: "calculate_gate_closure_schedule now trains = Inr ?sched"
    by (rule calculate_well_formed[OF assms])
  have l: "length ?sched = length trains" by simp
  have each: "\<forall>t\<in>set trains. \<exists>arrival cs ce.
                  arrival_datetime now t = Inr arrival
                \<and> to_us arrival
                    = day now * 86400000000 + minute_of_day (arrival_time t) * 60000000
                \<and> closure_instants now t = Inr (cs, ce)
                \<and> to_us cs = to_us arrival - 5 * 60000000
                \<and> to_us ce = to_us arrival + gate_closure_duration t * 60000000
                \<and> hour cs * 60 + minute cs = (minute_of_day (arrival_time t) - 5) mod 1440
                \<and> hour ce * 60 + minute ce
                    = (minute_of_day (arrival_time t) + gate_closure_duration t) mod 1440
                \<and> \<lparr>c_train_number = train_number t,
                    closure_start = strftime_HM cs,
                    closure_end = strftime_HM ce,
                    duration_minutes = gate_closure_duration t + 5,
                    c_priority = priority t,
                    c_platform = platform t\<rparr> \<in> set ?sched"
  proof
    fix t assume t: "t \<in> set trains"
    with assms(2) have wf: "well_formed_HHMM (arrival_time t)" and ic: "in_calendar now t"
      by auto
    from t have m: "window_of now t \<in> set ?sched" by simp
    from window_of_record[OF assms(1) wf ic] obtain arrival cs ce where
      h: "arrival_datetime now t = Inr arrival"
         "to_us arrival = day now * 86400000000 + minute_of_day (arrival_time t) * 60000000"
         "closure_instants now t = Inr (cs, ce)"
         "to_us cs = to_us arrival - 5 * 60000000"
         "to_us ce = to_us arrival + gate_closure_duration t * 60000000"
         "hour cs * 60 + minute cs = (minute_of_day (arrival_time t) - 5) mod 1440"
         "hour ce * 60 + minute ce
              = (minute_of_day (arrival_time t) + gate_closure_duration t) mod 1440"
         "window_of now t = \<lparr>c_train_number = train_number t,
              closure_start = strftime_HM cs,
              closure_end = strftime_HM ce,
              duration_minutes = gate_closure_duration t + 5,
              c_priority = priority t,
              c_platform = platform t\<rparr>"
      by blast
    from m have "\<lparr>c_train_number = train_number t,
              closure_start = strftime_HM cs,
              closure_end = strftime_HM ce,
              duration_minutes = gate_closure_duration t + 5,
              c_priority = priority t,
              c_platform = platform t\<rparr> \<in> set ?sched"
      unfolding h(8) .
    with h(1-7) show "\<exists>arrival cs ce.
                  arrival_datetime now t = Inr arrival
                \<and> to_us arrival
                    = day now * 86400000000 + minute_of_day (arrival_time t) * 60000000
                \<and> closure_instants now t = Inr (cs, ce)
                \<and> to_us cs = to_us arrival - 5 * 60000000
                \<and> to_us ce = to_us arrival + gate_closure_duration t * 60000000
                \<and> hour cs * 60 + minute cs = (minute_of_day (arrival_time t) - 5) mod 1440
                \<and> hour ce * 60 + minute ce
                    = (minute_of_day (arrival_time t) + gate_closure_duration t) mod 1440
                \<and> \<lparr>c_train_number = train_number t,
                    closure_start = strftime_HM cs,
                    closure_end = strftime_HM ce,
                    duration_minutes = gate_closure_duration t + 5,
                    c_priority = priority t,
                    c_platform = platform t\<rparr> \<in> set ?sched"
      by blast
  qed
  from c l each show "\<exists>sched. calculate_gate_closure_schedule now trains = Inr sched
            \<and> length sched = length trains
            \<and> (\<forall>t\<in>set trains. \<exists>arrival cs ce.
                  arrival_datetime now t = Inr arrival
                \<and> to_us arrival
                    = day now * 86400000000 + minute_of_day (arrival_time t) * 60000000
                \<and> closure_instants now t = Inr (cs, ce)
                \<and> to_us cs = to_us arrival - 5 * 60000000
                \<and> to_us ce = to_us arrival + gate_closure_duration t * 60000000
                \<and> hour cs * 60 + minute cs = (minute_of_day (arrival_time t) - 5) mod 1440
                \<and> hour ce * 60 + minute ce
                    = (minute_of_day (arrival_time t) + gate_closure_duration t) mod 1440
                \<and> \<lparr>c_train_number = train_number t,
                    closure_start = strftime_HM cs,
                    closure_end = strftime_HM ce,
                    duration_minutes = gate_closure_duration t + 5,
                    c_priority = priority t,
                    c_platform = platform t\<rparr> \<in> set sched)"
    by (intro exI[of _ ?sched] conjI)
next
  have "calculate_gate_closure_schedule now [exp_12345]
      = Inr (sort_key closure_start (map (window_of now) [exp_12345]))"
    by (rule calculate_well_formed[OF assms(1)])
       (simp add: sample_facts exp_12345_in_calendar[OF assms(1)])
  then show "calculate_gate_closure_schedule now [exp_12345]
           = Inr [\<lparr>c_train_number = ''EXP-12345'', closure_start = ''14:25'',
                   closure_end = ''14:38'', duration_minutes = 13,
                   c_priority = ''high'', c_platform = ''3''\<rparr>]"
    by (simp add: exp_12345_window)
qed

text \<open>The sample trains of the source satisfy the hypotheses.\<close>

theorem closure_window_values_witness:
  "valid_datetime example_now
   \<and> well_formed_HHMM (arrival_time exp_12345) \<and> in_calendar example_now exp_12345
   \<and> well_formed_HHMM (arrival_time loc_67890) \<and> in_calendar example_now loc_67890
   \<and> well_formed_HHMM (arrival_time frt_11111) \<and> in_calendar example_now frt_11111
   \<and> well_formed_HHMM (arrival_time exp_22222) \<and> in_calendar example_now exp_22222
   \<and> well_formed_HHMM (arrival_time psg_33333) \<and> in_calendar example_now psg_33333
   \<and> (\<exists>sched. calculate_gate_closure_schedule example_now sample_trains = Inr sched
         \<and> length sched = 5)
   \<and> calculate_gate_closure_schedule example_now [exp_12345]
       = Inr [\<lparr>c_train_number = ''EXP-12345'', closure_start = ''14:25'',
               closure_end = ''14:38'', duration_minutes = 13,
               c_priority = ''high'', c_platform = ''3''\<rparr>]"
proof -
  from closure_window_values[OF example_now_valid sample_all_ok]
  have "(\<exists>sched. calculate_gate_closure_schedule example_now sample_trains = Inr sched
         \<and> length sched = length sample_trains)"
    and "calculate_gate_closure_schedule example_now [exp_12345]
       = Inr [\<lparr>c_train_number = ''EXP-12345'', closure_start = ''14:25'',
               closure_end = ''14:38'', duration_minutes = 13,
               c_priority = ''high'', c_platform = ''3''\<rparr>]"
    by blast+
  moreover have "length sample_trains = 5" by (simp add: sample_trains_def)
  ultimately show ?thesis
    using example_now_valid sample_facts sample_in_calendar by simp
qed

text \<open>
  C6. For a valid current date and train records with well-formed arrival times (their
  closure instants within the calendar), the closure schedule is computed and is sorted
  in non-decreasing lexicographic order of the closure start strings. Whatever the
  records, a schedule that is returned is sorted in this order.
\<close>

theorem closure_schedule_sorted:
  assumes "valid_datetime now"
    and "\<forall>t\<in>set trains. well_formed_HHMM (arrival_time t) \<and> in_calendar now t"
  shows "(\<exists>sched. calculate_gate_closure_schedule now trains = Inr sched
            \<and> sorted (map closure_start sched))
     \<and> (\<forall>others s. calculate_gate_closure_schedule now others = Inr s
            \<longrightarrow> sorted (map closure_start s))"
proof
  show "\<exists>sched. calculate_gate_closure_schedule now trains = Inr sched
            \<and> sorted (map closure_start sched)"
    unfolding calculate_well_formed[OF assms]
    by (simp add: sorted_sort_key)
  show "\<forall>others s. calculate_gate_closure_schedule now others = Inr s
            \<longrightarrow> sorted (map closure_start s)"
    by (auto simp: calculate_gate_closure_schedule_def sorted_sort_key split: sum.splits)
qed

text \<open>The sample trains in reverse order come out sorted by closure start.\<close>

theorem closure_schedule_sorted_witness:
  "valid_datetime example_now
   \<and> calculate_gate_closure_schedule example_now (rev sample_trains)
       = Inr [window_of example_now exp_12345, window_of example_now loc_67890,
            window_of example_now frt_11111, window_of example_now exp_22222,
            window_of example_now psg_33333]
   \<and> sorted [''14:25'', ''14:40'', ''15:10'', ''15:40'', ''16:15'']"
proof -
  from closure_schedule_sorted[OF example_now_valid rev_sample_all_ok]
  have "\<exists>sched. calculate_gate_closure_schedule example_now (rev sample_trains) = Inr sched
            \<and> sorted (map closure_start sched)"
    by (rule conjunct1)
  then have "sorted (map closure_start [window_of example_now exp_12345,
            window_of example_now loc_67890, window_of example_now frt_11111,
            window_of example_now exp_22222, window_of example_now psg_33333])"
    unfolding rev_sample_schedule by simp
  then have "sorted [''14:25'', ''14:40'', ''15:10'', ''15:40'', ''16:15'']"
    unfolding exp_12345_window sample_windows by simp
  with example_now_valid rev_sample_schedule show ?thesis by simp
qed

text \<open>
  C7 (amended). For a valid current date and a train record with a well-formed arrival
  time, closure instants within the calendar and a closure duration above \<open>-5\<close> (every
  positive duration), the closure start instant is exactly the arrival instant minus 5
  minutes, the closure end instant is strictly later than the closure start instant, and
  the window's duration is \<open>gate_closure_duration + 5\<close>.
\<close>

theorem closure_window_chain:
  assumes "valid_datetime now" "well_formed_HHMM (arrival_time t)" "in_calendar now t"
    and "- 5 < gate_closure_duration t"
  shows "\<exists>arrival cs ce c.
            arrival_datetime now t = Inr arrival
          \<and> closure_instants now t = Inr (cs, ce)
          \<and> closure_entry now t = Inr c
          \<and> closure_start c = strftime_HM cs
          \<and> closure_end c = strftime_HM ce
          \<and> to_us cs = to_us arrival - 5 * 60000000
          \<and> to_us cs < to_us ce
          \<and> dt_less cs ce
          \<and> duration_minutes c = gate_closure_duration t + 5"
proof -
  from window_of_record[OF assms(1-3)] obtain arrival cs ce where
    h: "arrival_datetime now t = Inr arrival"
       "closure_instants now t = Inr (cs, ce)"
       "to_us cs = to_us arrival - 5 * 60000000"
       "to_us ce = to_us arrival + gate_closure_duration t * 60000000"
       "window_of now t = \<lparr>c_train_number = train_number t,
              closure_start = strftime_HM cs,
              closure_end = strftime_HM ce,
              duration_minutes = gate_closure_duration t + 5,
              c_priority = priority t,
              c_platform = platform t\<rparr>"
    by blast
  have ci: "closure_instants now t = Inr (start_instant now t, end_instant now t)"
    by (rule closure_instants_well_formed[OF assms(1-3)])
  with h(2) have eq: "cs = start_instant now t" "ce = end_instant now t" by simp_all
  have v: "valid_datetime cs" "valid_datetime ce"
    unfolding eq by (rule start_end_instants[OF assms(1-3)])+
  have lt: "to_us cs < to_us ce"
    unfolding h(3) h(4) using assms(4) by simp
  then have dl: "dt_less cs ce"
    by (simp add: dt_less_to_us[OF v])
  have ce: "closure_entry now t = Inr (window_of now t)"
    by (rule closure_entry_well_formed[OF assms(1-3)])
  have w: "closure_start (window_of now t) = strftime_HM cs"
    "closure_end (window_of now t) = strftime_HM ce"
    "duration_minutes (window_of now t) = gate_closure_duration t + 5"
    unfolding h(5) by simp_all
  from h(1) h(2) ce w h(3) lt dl show ?thesis by blast
qed

text \<open>The chain for the train EXP-12345: 14:25 is 14:30 minus 5 minutes and before 14:38.\<close>

theorem closure_window_chain_witness:
  "valid_datetime example_now \<and> well_formed_HHMM (arrival_time exp_12345)
   \<and> in_calendar example_now exp_12345 \<and> - 5 < gate_closure_duration exp_12345
   \<and> dt_less \<lparr>day = 739923, hour = 14, minute = 25, second = 0, microsecond = 0\<rparr>
              \<lparr>day = 739923, hour = 14, minute = 38, second = 0, microsecond = 0\<rparr>
   \<and> to_us \<lparr>day = 739923, hour = 14, minute = 25, second = 0, microsecond = 0\<rparr>
       = to_us \<lparr>day = 739923, hour = 14, minute = 30, second = 0, microsecond = 0\<rparr>
         - 5 * 60000000"
proof -
  have g: "- 5 < gate_closure_duration exp_12345" by (simp add: exp_12345_def)
  from closure_window_chain[OF example_now_valid sample_facts(1) sample_in_calendar(1) g]
  have "dt_less \<lparr>day = 739923, hour = 14, minute = 25, second = 0, microsecond = 0\<rparr>
              \<lparr>day = 739923, hour = 14, minute = 38, second = 0, microsecond = 0\<rparr>
     \<and> to_us \<lparr>day = 739923, hour = 14, minute = 25, second = 0, microsecond = 0\<rparr>
       = to_us \<lparr>day = 739923, hour = 14, minute = 30, second = 0, microsecond = 0\<rparr>
         - 5 * 60000000"
    unfolding exp_12345_instants by auto
  with example_now_valid sample_facts(1) sample_in_calendar(1) g show ?thesis by simp
qed

text \<open>
  For the train EXP-12345 the closure start instant, 14:25, is the arrival instant minus
  5 minutes; it is not an instant after that.
\<close>

theorem closure_start_strictly_after_counterexample:
  "well_formed_HHMM (arrival_time exp_12345)
   \<and> arrival_datetime example_now exp_12345
       = Inr \<lparr>day = 739923, hour = 14, minute = 30, second = 0, microsecond = 0\<rparr>
   \<and> closure_instants example_now exp_12345
       = Inr (\<lparr>day = 739923, hour = 14, minute = 25, second = 0, microsecond = 0\<rparr>,
              \<lparr>day = 739923, hour = 14, minute = 38, second = 0, microsecond = 0\<rparr>)
   \<and> \<not> to_us \<lparr>day = 739923, hour = 14, minute = 30, second = 0, microsecond = 0\<rparr>
           - 5 * 60000000
         < to_us \<lparr>day = 739923, hour = 14, minute = 25, second = 0, microsecond = 0\<rparr>"
  by (simp add: sample_facts exp_12345_instants to_us_def us_of_day_def)




text \<open>
  C5. With a valid current time and a closure schedule that was computed, the predictor
  returns a dictionary whose keys are exactly the train numbers of the windows whose
  closure start, put on the current date, is strictly after the current time. Every
  entry comes from such a window, and its minutes until closure are the gap in
  microseconds divided by 60000000 and rounded down (the gap is positive); its
  recommended action is the recommendation for these minutes and the window's duration.
  When train numbers are distinct, every such window has its entry.
\<close>

theorem wait_predictions_upcoming:
  assumes "valid_datetime now" "calculate_gate_closure_schedule now trains = Inr sched"
  shows "\<exists>preds. predict_wait_times now trains = Inr preds
     \<and> dom preds = {c_train_number c | c.
           c \<in> set sched \<and> to_us now < to_us (closure_start_on now c)}
     \<and> (\<forall>k p. preds k = Some p \<longrightarrow>
           (\<exists>c\<in>set sched. c_train_number c = k
              \<and> to_us now < to_us (closure_start_on now c)
              \<and> minutes_until_closure p
                  = (to_us (closure_start_on now c) - to_us now) div 60000000
              \<and> 0 \<le> minutes_until_closure p
              \<and> closure_duration p = duration_minutes c
              \<and> recommended_action p
                  = get_wait_recommendation (minutes_until_closure p) (duration_minutes c)))
     \<and> (distinct (map c_train_number sched) \<longrightarrow>
           (\<forall>c\<in>set sched. to_us now < to_us (closure_start_on now c) \<longrightarrow>
              (\<exists>p. preds (c_train_number c) = Some p
                 \<and> minutes_until_closure p
                     = (to_us (closure_start_on now c) - to_us now) div 60000000)))"
proof -
  let ?preds = "foldl (wait_step now) Map.empty sched"
  have a: "predict_wait_times now trains = Inr ?preds"
    by (rule predict_foldl[OF assms])
  have b: "dom ?preds = {c_train_number c | c.
           c \<in> set sched \<and> to_us now < to_us (closure_start_on now c)}"
    unfolding foldl_wait_dom by simp
  have c: "\<forall>k p. ?preds k = Some p \<longrightarrow>
           (\<exists>c\<in>set sched. c_train_number c = k
              \<and> to_us now < to_us (closure_start_on now c)
              \<and> minutes_until_closure p
                  = (to_us (closure_start_on now c) - to_us now) div 60000000
              \<and> 0 \<le> minutes_until_closure p
              \<and> closure_duration p = duration_minutes c
              \<and> recommended_action p
                  = get_wait_recommendation (minutes_until_closure p) (duration_minutes c))"
  proof (intro allI impI)
    fix k p assume "?preds k = Some p"
    from foldl_wait_source[OF this] obtain c where c: "c \<in> set sched" "c_train_number c = k"
      "to_us now < to_us (closure_start_on now c)" "p = prediction_of now c"
      by auto
    from c(3) have "0 \<le> (to_us (closure_start_on now c) - to_us now) div 60000000"
      by simp
    with c show "\<exists>c\<in>set sched. c_train_number c = k
              \<and> to_us now < to_us (closure_start_on now c)
              \<and> minutes_until_closure p
                  = (to_us (closure_start_on now c) - to_us now) div 60000000
              \<and> 0 \<le> minutes_until_closure p
              \<and> closure_duration p = duration_minutes c
              \<and> recommended_action p
                  = get_wait_recommendation (minutes_until_closure p) (duration_minutes c)"
      by (intro bexI[of _ c]) (simp_all add: prediction_of_def)
  qed
  have d: "distinct (map c_train_number sched) \<longrightarrow>
           (\<forall>c\<in>set sched. to_us now < to_us (closure_start_on now c) \<longrightarrow>
              (\<exists>p. ?preds (c_train_number c) = Some p
                 \<and> minutes_until_closure p
                     = (to_us (closure_start_on now c) - to_us now) div 60000000))"
  proof (intro impI ballI)
    fix c assume "distinct (map c_train_number sched)" "c \<in> set sched"
      "to_us now < to_us (closure_start_on now c)"
    from foldl_wait_distinct[OF this]
    show "\<exists>p. ?preds (c_train_number c) = Some p
                 \<and> minutes_until_closure p
                     = (to_us (closure_start_on now c) - to_us now) div 60000000"
      by (simp add: prediction_of_def)
  qed
  show ?thesis
    by (rule exI[of _ ?preds]) (intro conjI a b c d)
qed

text \<open>
  At 14:40:00 the windows starting 14:25 and 14:40 are left out, the second because its
  start is not strictly after the current time; the window starting 15:10 is predicted
  30 minutes ahead.
\<close>

theorem wait_predictions_upcoming_witness:
  "valid_datetime example_later
   \<and> calculate_gate_closure_schedule example_later sample_trains
       = Inr [window_of example_later exp_12345, window_of example_later loc_67890,
              window_of example_later frt_11111, window_of example_later exp_22222,
              window_of example_later psg_33333]
   \<and> closure_start (window_of example_later loc_67890) = ''14:40''
   \<and> (\<exists>preds. predict_wait_times example_later sample_trains = Inr preds
         \<and> dom preds = {''FRT-11111'', ''EXP-22222'', ''PSG-33333''}
         \<and> (\<exists>p. preds ''FRT-11111'' = Some p \<and> minutes_until_closure p = 30))"
proof -
  let ?sched = "[window_of example_later exp_12345, window_of example_later loc_67890,
              window_of example_later frt_11111, window_of example_later exp_22222,
              window_of example_later psg_33333]"
  note s = sample_schedule[OF example_later_valid]
  from wait_predictions_upcoming[OF example_later_valid s]
  obtain preds where p: "predict_wait_times example_later sample_trains = Inr preds"
    and d: "dom preds = {c_train_number c | c.
           c \<in> set ?sched \<and> to_us example_later < to_us (closure_start_on example_later c)}"
    and e: "distinct (map c_train_number ?sched) \<longrightarrow>
           (\<forall>c\<in>set ?sched. to_us example_later < to_us (closure_start_on example_later c) \<longrightarrow>
              (\<exists>p. preds (c_train_number c) = Some p
                 \<and> minutes_until_closure p
                     = (to_us (closure_start_on example_later c) - to_us example_later)
                        div 60000000))"
    by blast
  have up: "\<not> to_us example_later
        < to_us (closure_start_on example_later (window_of example_later exp_12345))"
    "\<not> to_us example_later
        < to_us (closure_start_on example_later (window_of example_later loc_67890))"
    "to_us example_later
        < to_us (closure_start_on example_later (window_of example_later frt_11111))"
    "to_us example_later
        < to_us (closure_start_on example_later (window_of example_later exp_22222))"
    "to_us example_later
        < to_us (closure_start_on example_later (window_of example_later psg_33333))"
    unfolding sample_starts_on less_gap[of "to_us example_later"] later_gaps by simp_all
  have d': "dom preds = {''FRT-11111'', ''EXP-22222'', ''PSG-33333''}"
    unfolding d collect_as_filter using up by (simp add: sample_numbers)
  have "distinct (map c_train_number ?sched)"
    by (simp add: sample_numbers)
  with e up(3) have "\<exists>p. preds (c_train_number (window_of example_later frt_11111)) = Some p
      \<and> minutes_until_closure p
           = (to_us (closure_start_on example_later (window_of example_later frt_11111))
               - to_us example_later) div 60000000"
    by simp
  then have f: "\<exists>p. preds ''FRT-11111'' = Some p \<and> minutes_until_closure p = 30"
    unfolding sample_numbers sample_starts_on later_gaps by simp
  have w: "closure_start (window_of example_later loc_67890) = ''14:40''"
    unfolding sample_windows by simp
  from example_later_valid s w p d' f show ?thesis by blast
qed





text \<open>
  C3 (the code departs from it). A ranking call does not leave the canonical routes
  unchanged: the copy made by \<^verbatim>\<open>optimize_routes\<close> is a copy of the list, not of
  the route objects, so the assignments of the call land in the objects of the canonical
  list. On the routes of the source, in a rush hour and with
  the draws 1, 5/4 and 3/2, one call changes the canonical additional times from
  15, 12, 18, 8 to 18, 18, 18, 8 and raises the traffic levels; a second call compounds
  the times to 27, 27, 22, 10.
\<close>

theorem optimize_routes_mutates_canonical:
  "map (\<lambda>r. (additional_time_minutes (initial_store r), traffic_level (initial_store r),
              recommended (initial_store r))) alternative_routes
     = [(15, ''medium'', False), (12, ''high'', False), (18, ''low'', False), (8, ''low'', True)]
   \<and> map (\<lambda>r. (additional_time_minutes
                  (fst (optimize_routes exact_int_mul 1 rush_env initial_store
                          alternative_routes) r),
                traffic_level
                  (fst (optimize_routes exact_int_mul 1 rush_env initial_store
                          alternative_routes) r),
                recommended
                  (fst (optimize_routes exact_int_mul 1 rush_env initial_store
                          alternative_routes) r))) alternative_routes
     = [(18, ''high'', False), (18, ''high'', False), (18, ''medium'', False),
        (8, ''medium'', True)]
   \<and> map (\<lambda>r. additional_time_minutes
              (fst (optimize_routes exact_int_mul 1 rush_env
                     (fst (optimize_routes exact_int_mul 1 rush_env initial_store
                             alternative_routes))
                     alternative_routes) r))
       alternative_routes = [27, 27, 22, 10]"
  using initial_fields first_fields second_times unfolding first_store_def by simp

end
